theory Spec2Isabelle
  imports Complex_Main
begin

section \<open>Data model of the Asset and Account modules\<close>

text \<open>
  Parties and texts are strings, contract ids are natural numbers handed out by the
  ledger in creation order. A Decimal is a fixed-point number of 38 digits, 10 of them
  after the point: a rational number with at most 10 digits after the point, between
  \<open>- Decimal_max\<close> and \<open>Decimal_max\<close>. The sum and the difference of two Decimals
  have at most 10 digits after the point again, so they are computed exactly, and they
  abort the transaction with an arithmetic error when they leave that range.
\<close>

type_synonym Party = string
type_synonym Text = string
type_synonym Decimal = rat
type_synonym ContractId = nat

definition Decimal_max :: Decimal where
  "Decimal_max = 99999999999999999999999999999999999999 / 10000000000"

definition in_Decimal_range :: "Decimal \<Rightarrow> bool" where
  "in_Decimal_range v = (- Decimal_max \<le> v \<and> v \<le> Decimal_max)"

record AssetType =
  issuer :: Party
  symbol :: Text
  fungible :: bool
  reference :: "Text option"

record Asset =
  asset_type :: AssetType
  owner :: Party
  amount :: Decimal

record AssetTransfer =
  asset :: Asset
  recipient :: Party
  amount :: Decimal

record AssetHoldingAccount =
  asset_type :: AssetType
  owner :: Party
  airdroppable :: bool
  resharable :: bool

record AssetHoldingAccountProposal =
  account :: AssetHoldingAccount
  recipient :: Party

subsection \<open>Signatories, observers, ensure clauses and keys of the templates\<close>

definition Asset_signatory :: "Asset \<Rightarrow> Party list" where
  "Asset_signatory a = [issuer (Asset.asset_type a), Asset.owner a]"

definition Asset_ensure :: "Asset \<Rightarrow> bool" where
  "Asset_ensure a =
     (if fungible (Asset.asset_type a) then Asset.amount a > 0
      else (Asset.amount a = 1 \<or> Asset.amount a = 0))"

definition Asset_key :: "Asset \<Rightarrow> AssetType \<times> Party" where
  "Asset_key a = (Asset.asset_type a, Asset.owner a)"

definition Asset_maintainer :: "AssetType \<times> Party \<Rightarrow> Party list" where
  "Asset_maintainer k = [snd k]"

definition AssetTransfer_signatory :: "AssetTransfer \<Rightarrow> Party list" where
  "AssetTransfer_signatory t = Asset_signatory (asset t)"

definition AssetTransfer_observer :: "AssetTransfer \<Rightarrow> Party list" where
  "AssetTransfer_observer t = [AssetTransfer.recipient t]"

definition AssetHoldingAccount_signatory :: "AssetHoldingAccount \<Rightarrow> Party list" where
  "AssetHoldingAccount_signatory acc =
     [issuer (AssetHoldingAccount.asset_type acc), AssetHoldingAccount.owner acc]"

definition AssetHoldingAccount_key :: "AssetHoldingAccount \<Rightarrow> AssetType \<times> Party" where
  "AssetHoldingAccount_key acc =
     (AssetHoldingAccount.asset_type acc, AssetHoldingAccount.owner acc)"

definition AssetHoldingAccount_maintainer :: "AssetType \<times> Party \<Rightarrow> Party list" where
  "AssetHoldingAccount_maintainer k = [issuer (fst k)]"

definition AssetHoldingAccountProposal_signatory ::
  "AssetHoldingAccountProposal \<Rightarrow> Party list" where
  "AssetHoldingAccountProposal_signatory p =
     [issuer (AssetHoldingAccount.asset_type (account p))]"

definition AssetHoldingAccountProposal_observer ::
  "AssetHoldingAccountProposal \<Rightarrow> Party list" where
  "AssetHoldingAccountProposal_observer p = [AssetHoldingAccountProposal.recipient p]"

section \<open>The ledger\<close>

text \<open>
  The ledger holds the active contracts of each template, each under its contract id.
  An update either fails, and then nothing of it is committed, or returns a value and
  the ledger it leaves.
\<close>

datatype error =
    AssertionFailed string
  | PreconditionFailed
  | DuplicateKey
  | ContractNotFound
  | AuthorizationFailed
  | FromSomeNone
  | ArithmeticError

record Ledger =
  next_cid :: ContractId
  assets :: "(ContractId \<times> Asset) list"
  transfers :: "(ContractId \<times> AssetTransfer) list"
  accounts :: "(ContractId \<times> AssetHoldingAccount) list"
  proposals :: "(ContractId \<times> AssetHoldingAccountProposal) list"

type_synonym 'a Update = "Ledger \<Rightarrow> error + ('a \<times> Ledger)"

definition returnU :: "'a \<Rightarrow> 'a Update" where
  "returnU x L = Inr (x, L)"

definition bindU :: "'a Update \<Rightarrow> ('a \<Rightarrow> 'b Update) \<Rightarrow> 'b Update" where
  "bindU m f L = (case m L of Inl e \<Rightarrow> Inl e | Inr (x, L') \<Rightarrow> f x L')"

definition assertMsg :: "string \<Rightarrow> bool \<Rightarrow> unit Update" where
  "assertMsg msg b L = (if b then Inr ((), L) else Inl (AssertionFailed msg))"

definition fromSome :: "'a option \<Rightarrow> 'a Update" where
  "fromSome x L = (case x of Some v \<Rightarrow> Inr (v, L) | None \<Rightarrow> Inl FromSomeNone)"

text \<open>The sum and the difference of two Decimals, failing on overflow.\<close>

definition add_Decimal :: "Decimal \<Rightarrow> Decimal \<Rightarrow> Decimal Update" where
  "add_Decimal x y L =
     (if in_Decimal_range (x + y) then Inr (x + y, L) else Inl ArithmeticError)"

definition sub_Decimal :: "Decimal \<Rightarrow> Decimal \<Rightarrow> Decimal Update" where
  "sub_Decimal x y L =
     (if in_Decimal_range (x - y) then Inr (x - y, L) else Inl ArithmeticError)"

text \<open>Every party of the second list is among the authorizers.\<close>

definition authorized :: "Party list \<Rightarrow> Party list \<Rightarrow> bool" where
  "authorized auth ps = list_all (\<lambda>p. p \<in> set auth) ps"

text \<open>Some party of the second list is among the authorizers.\<close>

definition some_authorized :: "Party list \<Rightarrow> Party list \<Rightarrow> bool" where
  "some_authorized auth ps = list_ex (\<lambda>p. p \<in> set auth) ps"

definition remove_cid :: "ContractId \<Rightarrow> (ContractId \<times> 'a) list \<Rightarrow> (ContractId \<times> 'a) list" where
  "remove_cid cid xs = filter (\<lambda>e. fst e \<noteq> cid) xs"

definition find_key :: "('a \<Rightarrow> 'k) \<Rightarrow> 'k \<Rightarrow> (ContractId \<times> 'a) list \<Rightarrow> ContractId option" where
  "find_key key k xs = map_option fst (find (\<lambda>e. key (snd e) = k) xs)"

subsection \<open>Asset contracts\<close>

definition createAsset :: "Party list \<Rightarrow> Asset \<Rightarrow> ContractId Update" where
  "createAsset auth a L =
     (if \<not> Asset_ensure a then Inl PreconditionFailed
      else if \<not> authorized auth (Asset_signatory a) then Inl AuthorizationFailed
      else if find_key Asset_key (Asset_key a) (assets L) \<noteq> None then Inl DuplicateKey
      else Inr (next_cid L,
             L\<lparr>next_cid := Suc (next_cid L), assets := assets L @ [(next_cid L, a)]\<rparr>))"

definition lookupByKeyAsset :: "Party list \<Rightarrow> AssetType \<times> Party \<Rightarrow> ContractId option Update" where
  "lookupByKeyAsset auth k L =
     (if \<not> authorized auth (Asset_maintainer k) then Inl AuthorizationFailed
      else Inr (find_key Asset_key k (assets L), L))"

definition fetchAsset :: "Party list \<Rightarrow> ContractId \<Rightarrow> Asset Update" where
  "fetchAsset auth cid L =
     (case map_of (assets L) cid of
        None \<Rightarrow> Inl ContractNotFound
      | Some a \<Rightarrow>
          if \<not> some_authorized auth (Asset_signatory a) then Inl AuthorizationFailed
          else Inr (a, L))"

definition archiveAsset :: "Party list \<Rightarrow> ContractId \<Rightarrow> unit Update" where
  "archiveAsset auth cid L =
     (case map_of (assets L) cid of
        None \<Rightarrow> Inl ContractNotFound
      | Some a \<Rightarrow>
          if \<not> authorized auth (Asset_signatory a) then Inl AuthorizationFailed
          else Inr ((), L\<lparr>assets := remove_cid cid (assets L)\<rparr>))"

subsection \<open>AssetTransfer, AssetHoldingAccount and AssetHoldingAccountProposal contracts\<close>

definition createAssetTransfer :: "Party list \<Rightarrow> AssetTransfer \<Rightarrow> ContractId Update" where
  "createAssetTransfer auth t L =
     (if \<not> authorized auth (AssetTransfer_signatory t) then Inl AuthorizationFailed
      else Inr (next_cid L,
             L\<lparr>next_cid := Suc (next_cid L), transfers := transfers L @ [(next_cid L, t)]\<rparr>))"

definition createAssetHoldingAccount ::
  "Party list \<Rightarrow> AssetHoldingAccount \<Rightarrow> ContractId Update" where
  "createAssetHoldingAccount auth acc L =
     (if \<not> authorized auth (AssetHoldingAccount_signatory acc) then Inl AuthorizationFailed
      else if find_key AssetHoldingAccount_key (AssetHoldingAccount_key acc) (accounts L) \<noteq> None
        then Inl DuplicateKey
      else Inr (next_cid L,
             L\<lparr>next_cid := Suc (next_cid L), accounts := accounts L @ [(next_cid L, acc)]\<rparr>))"

definition createAssetHoldingAccountProposal ::
  "Party list \<Rightarrow> AssetHoldingAccountProposal \<Rightarrow> ContractId Update" where
  "createAssetHoldingAccountProposal auth p L =
     (if \<not> authorized auth (AssetHoldingAccountProposal_signatory p)
        then Inl AuthorizationFailed
      else Inr (next_cid L,
             L\<lparr>next_cid := Suc (next_cid L), proposals := proposals L @ [(next_cid L, p)]\<rparr>))"

section \<open>Choices of AssetTransfer\<close>

text \<open>
  Each choice body takes the contract it is exercised on (\<open>this\<close>) and the parties
  that authorize its actions: the signatories of the contract and the controller.
\<close>

definition previous_asset_amount_of ::
  "Party list \<Rightarrow> ContractId option \<Rightarrow> Decimal Update" where
  "previous_asset_amount_of auth assetCid =
     (case assetCid of
        Some cid \<Rightarrow>
          bindU (fetchAsset auth cid) (\<lambda>a.
          bindU (archiveAsset auth cid) (\<lambda>_.
          returnU (Asset.amount a)))
      | None \<Rightarrow> returnU 0)"

definition Cancel_Transfer :: "AssetTransfer \<Rightarrow> Party list \<Rightarrow> ContractId Update" where
  "Cancel_Transfer this auth =
     bindU (lookupByKeyAsset auth (Asset.asset_type (asset this), Asset.owner (asset this)))
       (\<lambda>assetCid.
     bindU (previous_asset_amount_of auth assetCid) (\<lambda>previous_asset_amount.
     bindU (add_Decimal (AssetTransfer.amount this) previous_asset_amount) (\<lambda>new_amount.
     createAsset auth ((asset this)\<lparr>Asset.amount := new_amount\<rparr>))))"

definition Reject_Transfer :: "AssetTransfer \<Rightarrow> Party list \<Rightarrow> ContractId Update" where
  "Reject_Transfer this auth =
     createAssetTransfer auth
       (this\<lparr>asset := asset this,
             AssetTransfer.recipient := Asset.owner (asset this),
             AssetTransfer.amount := AssetTransfer.amount this\<rparr>)"

definition msg_accept_nonfungible :: string where
  "msg_accept_nonfungible =
     ''Cannot accept AssetTransfer. The recipient already owns this type of non-fungible asset''"

definition Accept_Transfer :: "AssetTransfer \<Rightarrow> Party list \<Rightarrow> ContractId Update" where
  "Accept_Transfer this auth =
     bindU (lookupByKeyAsset auth (Asset.asset_type (asset this), AssetTransfer.recipient this))
       (\<lambda>assetCid.
     bindU (case assetCid of
              Some cid \<Rightarrow>
                bindU (fetchAsset auth cid) (\<lambda>a.
                bindU (assertMsg msg_accept_nonfungible (fungible (Asset.asset_type a))) (\<lambda>_.
                bindU (archiveAsset auth cid) (\<lambda>_.
                returnU (Asset.amount a))))
            | None \<Rightarrow> returnU 0) (\<lambda>previous_asset_amount.
     bindU (add_Decimal (AssetTransfer.amount this) previous_asset_amount) (\<lambda>new_amount.
     createAsset auth
       ((asset this)\<lparr>Asset.amount := new_amount,
                     Asset.owner := AssetTransfer.recipient this\<rparr>))))"

section \<open>Choices of AssetHoldingAccount\<close>

definition Invite_New_Asset_Holder ::
  "AssetHoldingAccount \<Rightarrow> Party \<Rightarrow> Party list \<Rightarrow> ContractId Update" where
  "Invite_New_Asset_Holder this recipient' auth =
     createAssetHoldingAccountProposal auth
       \<lparr>account = this, AssetHoldingAccountProposal.recipient = recipient'\<rparr>"

definition msg_airdrop_not_accepted :: string where
  "msg_airdrop_not_accepted =
     ''Cannot create airdrop. The target account does not accept airdrops''"

definition msg_airdrop_amount :: string where
  "msg_airdrop_amount =
     ''Cannot create airdrop. The amount of non fungible asset must be 1.0''"

definition msg_airdrop_occupied :: string where
  "msg_airdrop_occupied =
     ''Cannot create airdrop. An asset already exists in the account. A non fungible asset can be aidropped only into an empty account''"

definition Airdrop :: "AssetHoldingAccount \<Rightarrow> Decimal \<Rightarrow> Party list \<Rightarrow> ContractId Update" where
  "Airdrop this amount' auth =
     bindU (assertMsg msg_airdrop_not_accepted
              (airdroppable this \<or>
               issuer (AssetHoldingAccount.asset_type this) = AssetHoldingAccount.owner this))
       (\<lambda>_.
     bindU (assertMsg msg_airdrop_amount
              (fungible (AssetHoldingAccount.asset_type this) \<or> amount' = 1)) (\<lambda>_.
     bindU (lookupByKeyAsset auth
              (AssetHoldingAccount.asset_type this, AssetHoldingAccount.owner this))
       (\<lambda>assetCid.
     bindU (assertMsg msg_airdrop_occupied
              (fungible (AssetHoldingAccount.asset_type this) \<or> assetCid = None)) (\<lambda>_.
     bindU (previous_asset_amount_of auth assetCid) (\<lambda>previous_asset_amount.
     bindU (add_Decimal amount' previous_asset_amount) (\<lambda>new_amount.
     createAsset auth
       \<lparr>Asset.asset_type = AssetHoldingAccount.asset_type this,
        Asset.owner = AssetHoldingAccount.owner this,
        Asset.amount = new_amount\<rparr>))))))"

definition msg_not_enough_funds :: string where
  "msg_not_enough_funds = ''Cannot create AssetTransfer. Not enough funds in the account''"

definition Create_Transfer ::
  "AssetHoldingAccount \<Rightarrow> Decimal \<Rightarrow> Party \<Rightarrow> Party list \<Rightarrow> ContractId Update" where
  "Create_Transfer this amount' recipient' auth =
     bindU (lookupByKeyAsset auth
              (AssetHoldingAccount.asset_type this, AssetHoldingAccount.owner this))
       (\<lambda>assetCid.
     bindU (assertMsg msg_not_enough_funds (assetCid \<noteq> None)) (\<lambda>_.
     bindU (fromSome assetCid) (\<lambda>cid.
     bindU (fetchAsset auth cid) (\<lambda>a.
     bindU (assertMsg msg_not_enough_funds (amount' \<le> Asset.amount a)) (\<lambda>_.
     bindU (archiveAsset auth cid) (\<lambda>_.
     bindU (sub_Decimal (Asset.amount a) amount') (\<lambda>new_amount.
     bindU (createAsset auth (a\<lparr>Asset.amount := new_amount\<rparr>)) (\<lambda>_.
     createAssetTransfer auth
       \<lparr>asset = a, AssetTransfer.recipient = recipient', AssetTransfer.amount = amount'\<rparr>))))))))"

section \<open>Choices of AssetHoldingAccountProposal\<close>

definition AssetHoldingAccountProposal_Accept ::
  "AssetHoldingAccountProposal \<Rightarrow> Party list \<Rightarrow> ContractId Update" where
  "AssetHoldingAccountProposal_Accept this auth =
     createAssetHoldingAccount auth
       ((account this)\<lparr>AssetHoldingAccount.owner := AssetHoldingAccountProposal.recipient this\<rparr>)"

definition AssetHoldingAccountProposal_Reject ::
  "AssetHoldingAccountProposal \<Rightarrow> Party list \<Rightarrow> unit Update" where
  "AssetHoldingAccountProposal_Reject this auth = returnU ()"

section \<open>Exercising a choice\<close>

text \<open>
  A party exercises a choice on an active contract. The party must be the controller of
  the choice; a consuming choice archives the contract before its body runs; the body is
  authorized by the signatories of the contract together with the controller.
\<close>

definition exercise_transfer ::
  "(AssetTransfer \<Rightarrow> Party list \<Rightarrow> 'a Update) \<Rightarrow> (AssetTransfer \<Rightarrow> Party) \<Rightarrow>
   Party \<Rightarrow> ContractId \<Rightarrow> 'a Update" where
  "exercise_transfer body controller p cid L =
     (case map_of (transfers L) cid of
        None \<Rightarrow> Inl ContractNotFound
      | Some this \<Rightarrow>
          if controller this \<noteq> p then Inl AuthorizationFailed
          else body this (AssetTransfer_signatory this @ [controller this])
                 (L\<lparr>transfers := remove_cid cid (transfers L)\<rparr>))"

definition exercise_account ::
  "(AssetHoldingAccount \<Rightarrow> Party list \<Rightarrow> 'a Update) \<Rightarrow> (AssetHoldingAccount \<Rightarrow> Party) \<Rightarrow>
   Party \<Rightarrow> ContractId \<Rightarrow> 'a Update" where
  "exercise_account body controller p cid L =
     (case map_of (accounts L) cid of
        None \<Rightarrow> Inl ContractNotFound
      | Some this \<Rightarrow>
          if controller this \<noteq> p then Inl AuthorizationFailed
          else body this (AssetHoldingAccount_signatory this @ [controller this]) L)"

definition exercise_proposal ::
  "(AssetHoldingAccountProposal \<Rightarrow> Party list \<Rightarrow> 'a Update) \<Rightarrow>
   (AssetHoldingAccountProposal \<Rightarrow> Party) \<Rightarrow> Party \<Rightarrow> ContractId \<Rightarrow> 'a Update" where
  "exercise_proposal body controller p cid L =
     (case map_of (proposals L) cid of
        None \<Rightarrow> Inl ContractNotFound
      | Some this \<Rightarrow>
          if controller this \<noteq> p then Inl AuthorizationFailed
          else body this (AssetHoldingAccountProposal_signatory this @ [controller this])
                 (L\<lparr>proposals := remove_cid cid (proposals L)\<rparr>))"

definition exercise_Cancel_Transfer :: "Party \<Rightarrow> ContractId \<Rightarrow> ContractId Update" where
  "exercise_Cancel_Transfer =
     exercise_transfer Cancel_Transfer (\<lambda>this. Asset.owner (asset this))"

definition exercise_Reject_Transfer :: "Party \<Rightarrow> ContractId \<Rightarrow> ContractId Update" where
  "exercise_Reject_Transfer = exercise_transfer Reject_Transfer AssetTransfer.recipient"

definition exercise_Accept_Transfer :: "Party \<Rightarrow> ContractId \<Rightarrow> ContractId Update" where
  "exercise_Accept_Transfer = exercise_transfer Accept_Transfer AssetTransfer.recipient"

definition Invite_New_Asset_Holder_controller :: "AssetHoldingAccount \<Rightarrow> Party" where
  "Invite_New_Asset_Holder_controller this =
     (if resharable this then AssetHoldingAccount.owner this
      else issuer (AssetHoldingAccount.asset_type this))"

definition exercise_Invite_New_Asset_Holder ::
  "Party \<Rightarrow> ContractId \<Rightarrow> Party \<Rightarrow> ContractId Update" where
  "exercise_Invite_New_Asset_Holder p cid recipient' =
     exercise_account (\<lambda>this. Invite_New_Asset_Holder this recipient')
       Invite_New_Asset_Holder_controller p cid"

definition exercise_Airdrop :: "Party \<Rightarrow> ContractId \<Rightarrow> Decimal \<Rightarrow> ContractId Update" where
  "exercise_Airdrop p cid amount' =
     exercise_account (\<lambda>this. Airdrop this amount')
       (\<lambda>this. issuer (AssetHoldingAccount.asset_type this)) p cid"

definition exercise_Create_Transfer ::
  "Party \<Rightarrow> ContractId \<Rightarrow> Decimal \<Rightarrow> Party \<Rightarrow> ContractId Update" where
  "exercise_Create_Transfer p cid amount' recipient' =
     exercise_account (\<lambda>this. Create_Transfer this amount' recipient')
       AssetHoldingAccount.owner p cid"

definition exercise_AssetHoldingAccountProposal_Accept ::
  "Party \<Rightarrow> ContractId \<Rightarrow> ContractId Update" where
  "exercise_AssetHoldingAccountProposal_Accept =
     exercise_proposal AssetHoldingAccountProposal_Accept
       AssetHoldingAccountProposal.recipient"

definition exercise_AssetHoldingAccountProposal_Reject ::
  "Party \<Rightarrow> ContractId \<Rightarrow> unit Update" where
  "exercise_AssetHoldingAccountProposal_Reject =
     exercise_proposal AssetHoldingAccountProposal_Reject
       AssetHoldingAccountProposal.recipient"

section \<open>Commands\<close>

text \<open>
  A party submits one command: the creation of a contract, authorized by the party alone,
  or a choice on an active contract. A failed command leaves the ledger as it was.
\<close>

datatype Command =
    Create_Asset Asset
  | Create_AssetTransfer AssetTransfer
  | Create_AssetHoldingAccount AssetHoldingAccount
  | Create_AssetHoldingAccountProposal AssetHoldingAccountProposal
  | Exercise_Cancel_Transfer ContractId
  | Exercise_Reject_Transfer ContractId
  | Exercise_Accept_Transfer ContractId
  | Exercise_Invite_New_Asset_Holder ContractId Party
  | Exercise_Airdrop ContractId Decimal
  | Exercise_Create_Transfer ContractId Decimal Party
  | Exercise_AssetHoldingAccountProposal_Accept ContractId
  | Exercise_AssetHoldingAccountProposal_Reject ContractId

definition ledger_of :: "'a Update \<Rightarrow> Ledger \<Rightarrow> error + Ledger" where
  "ledger_of m L = (case m L of Inl e \<Rightarrow> Inl e | Inr (x, L') \<Rightarrow> Inr L')"

fun submit :: "Party \<Rightarrow> Command \<Rightarrow> Ledger \<Rightarrow> error + Ledger" where
  "submit p (Create_Asset a) L = ledger_of (createAsset [p] a) L"
| "submit p (Create_AssetTransfer t) L = ledger_of (createAssetTransfer [p] t) L"
| "submit p (Create_AssetHoldingAccount acc) L = ledger_of (createAssetHoldingAccount [p] acc) L"
| "submit p (Create_AssetHoldingAccountProposal pr) L =
     ledger_of (createAssetHoldingAccountProposal [p] pr) L"
| "submit p (Exercise_Cancel_Transfer cid) L = ledger_of (exercise_Cancel_Transfer p cid) L"
| "submit p (Exercise_Reject_Transfer cid) L = ledger_of (exercise_Reject_Transfer p cid) L"
| "submit p (Exercise_Accept_Transfer cid) L = ledger_of (exercise_Accept_Transfer p cid) L"
| "submit p (Exercise_Invite_New_Asset_Holder cid r) L =
     ledger_of (exercise_Invite_New_Asset_Holder p cid r) L"
| "submit p (Exercise_Airdrop cid x) L = ledger_of (exercise_Airdrop p cid x) L"
| "submit p (Exercise_Create_Transfer cid x r) L =
     ledger_of (exercise_Create_Transfer p cid x r) L"
| "submit p (Exercise_AssetHoldingAccountProposal_Accept cid) L =
     ledger_of (exercise_AssetHoldingAccountProposal_Accept p cid) L"
| "submit p (Exercise_AssetHoldingAccountProposal_Reject cid) L =
     ledger_of (exercise_AssetHoldingAccountProposal_Reject p cid) L"

text \<open>The ledger after a command: the new one when it succeeds, the old one when it fails.\<close>

definition committed :: "Party \<Rightarrow> Command \<Rightarrow> Ledger \<Rightarrow> Ledger" where
  "committed p c L = (case submit p c L of Inl e \<Rightarrow> L | Inr L' \<Rightarrow> L')"

definition empty_ledger :: Ledger where
  "empty_ledger = \<lparr>next_cid = 0, assets = [], transfers = [], accounts = [], proposals = []\<rparr>"

section \<open>Asset types of the test script\<close>

definition alice_tkn :: AssetType where
  "alice_tkn = \<lparr>issuer = ''Alice'', symbol = ''ALC'', fungible = True, reference = None\<rparr>"

definition chris_nft :: AssetType where
  "chris_nft = \<lparr>issuer = ''Chris'', symbol = ''NFT'', fungible = False,
     reference = Some ''http://google.com''\<rparr>"

section \<open>Properties of ledgers\<close>

text \<open>
  An update preserves a property of ledgers when every ledger it leaves has the property
  whenever the ledger it started from had it.
\<close>

definition pres :: "(Ledger \<Rightarrow> bool) \<Rightarrow> 'a Update \<Rightarrow> bool" where
  "pres P m = (\<forall>L x L'. P L \<longrightarrow> m L = Inr (x, L') \<longrightarrow> P L')"

text \<open>
  The fungibility invariant in the words of the specification, to be compared with the
  ensure clause of the Asset template.
\<close>

definition fungibility_invariant :: "Asset \<Rightarrow> bool" where
  "fungibility_invariant a =
     ((fungible (Asset.asset_type a) \<longrightarrow> Asset.amount a > 0) \<and>
      (\<not> fungible (Asset.asset_type a) \<longrightarrow> Asset.amount a = 0 \<or> Asset.amount a = 1))"

text \<open>Every Asset of the ledger was already in \<open>L0\<close> or satisfies the invariant.\<close>

definition assets_from :: "Ledger \<Rightarrow> Ledger \<Rightarrow> bool" where
  "assets_from L0 L = (\<forall>e \<in> set (assets L). e \<in> set (assets L0) \<or> fungibility_invariant (snd e))"

text \<open>
  A well-formed ledger: contract ids are distinct and below the next id to hand out, no
  two active Assets and no two active accounts share a key, and every active Asset
  satisfies its ensure clause.
\<close>

definition wf_cids :: "ContractId \<Rightarrow> (ContractId \<times> 'a) list \<Rightarrow> bool" where
  "wf_cids n xs = (distinct (map fst xs) \<and> list_all (\<lambda>e. fst e < n) xs)"

definition wf_ledger :: "Ledger \<Rightarrow> bool" where
  "wf_ledger L =
     (wf_cids (next_cid L) (assets L) \<and> wf_cids (next_cid L) (transfers L) \<and>
      wf_cids (next_cid L) (accounts L) \<and> wf_cids (next_cid L) (proposals L) \<and>
      distinct (map (\<lambda>e. Asset_key (snd e)) (assets L)) \<and>
      distinct (map (\<lambda>e. AssetHoldingAccount_key (snd e)) (accounts L)) \<and>
      list_all (\<lambda>e. Asset_ensure (snd e)) (assets L))"

text \<open>The active Asset at a key, and the balance it stands for (0 when there is none).\<close>

definition asset_at :: "Ledger \<Rightarrow> AssetType \<times> Party \<Rightarrow> Asset option" where
  "asset_at L k = map_option snd (find (\<lambda>e. Asset_key (snd e) = k) (assets L))"

definition balance :: "Ledger \<Rightarrow> AssetType \<times> Party \<Rightarrow> Decimal" where
  "balance L k = (case asset_at L k of None \<Rightarrow> 0 | Some a \<Rightarrow> Asset.amount a)"

text \<open>
  Successive rejections of a transfer, each exercised by the recipient of the transfer as
  it then stands, on the transfer the previous rejection created.
\<close>

fun reject_times :: "nat \<Rightarrow> ContractId \<Rightarrow> ContractId Update" where
  "reject_times 0 cid L = Inr (cid, L)"
| "reject_times (Suc n) cid L =
     (case map_of (transfers L) cid of
        None \<Rightarrow> Inl ContractNotFound
      | Some t \<Rightarrow>
          (case exercise_Reject_Transfer (AssetTransfer.recipient t) cid L of
             Inl e \<Rightarrow> Inl e
           | Inr (cid', L') \<Rightarrow> reject_times n cid' L'))"

text \<open>A list of commands, each submitted by its party, stopping at the first failure.\<close>

fun run :: "(Party \<times> Command) list \<Rightarrow> Ledger \<Rightarrow> error + Ledger" where
  "run [] L = Inr L"
| "run ((p, c) # cs) L = (case submit p c L of Inl e \<Rightarrow> Inl e | Inr L' \<Rightarrow> run cs L')"

section \<open>Ledgers of the test script\<close>

text \<open>
  The accounts, assets and commands of the test script of the Account module, the ledgers
  they lead to, and a few more ledgers that further commands on those reach.
\<close>

definition alice_account :: AssetHoldingAccount where
  "alice_account = \<lparr>AssetHoldingAccount.asset_type = alice_tkn, AssetHoldingAccount.owner = ''Alice'',
     airdroppable = False, resharable = True\<rparr>"

definition bob_account :: AssetHoldingAccount where
  "bob_account = alice_account\<lparr>AssetHoldingAccount.owner := ''Bob''\<rparr>"

definition alice_asset :: "Decimal \<Rightarrow> Asset" where
  "alice_asset x = \<lparr>Asset.asset_type = alice_tkn, Asset.owner = ''Alice'', Asset.amount = x\<rparr>"

text \<open>
  Alice creates her own account, mints 10 and airdrops 5 more into it, and enrols Bob.
\<close>

definition script_enrol :: "(Party \<times> Command) list" where
  "script_enrol =
     [(''Alice'', Create_AssetHoldingAccount alice_account),
      (''Alice'', Create_Asset (alice_asset 10)),
      (''Alice'', Exercise_Airdrop 0 5),
      (''Alice'', Exercise_Invite_New_Asset_Holder 0 ''Bob''),
      (''Bob'', Exercise_AssetHoldingAccountProposal_Accept 3)]"

definition ledger_enrolled :: Ledger where
  "ledger_enrolled =
     \<lparr>next_cid = 5, assets = [(2, alice_asset 15)], transfers = [],
      accounts = [(0, alice_account), (4, bob_account)], proposals = []\<rparr>"

text \<open>The ledger after Alice has created a transfer of 5 to Bob.\<close>

definition ledger_in_transfer :: Ledger where
  "ledger_in_transfer =
     \<lparr>next_cid = 7, assets = [(5, alice_asset 10)],
      transfers = [(6, \<lparr>asset = alice_asset 15, AssetTransfer.recipient = ''Bob'',
                        AssetTransfer.amount = 5\<rparr>)],
      accounts = [(0, alice_account), (4, bob_account)], proposals = []\<rparr>"

definition chris_account :: AssetHoldingAccount where
  "chris_account = \<lparr>AssetHoldingAccount.asset_type = chris_nft, AssetHoldingAccount.owner = ''Chris'',
     airdroppable = True, resharable = True\<rparr>"

definition nft_asset :: "Party \<Rightarrow> Decimal \<Rightarrow> Asset" where
  "nft_asset p x = \<lparr>Asset.asset_type = chris_nft, Asset.owner = p, Asset.amount = x\<rparr>"

text \<open>
  Chris creates the NFT account and enrols Dianne, who enrols Alice; Chris airdrops one
  NFT to Dianne and, beyond the test script, one to Alice.
\<close>

definition script_nft :: "(Party \<times> Command) list" where
  "script_nft =
     [(''Chris'', Create_AssetHoldingAccount chris_account),
      (''Chris'', Exercise_Invite_New_Asset_Holder 0 ''Dianne''),
      (''Dianne'', Exercise_AssetHoldingAccountProposal_Accept 1),
      (''Chris'', Exercise_Airdrop 2 1),
      (''Dianne'', Exercise_Invite_New_Asset_Holder 2 ''Alice''),
      (''Alice'', Exercise_AssetHoldingAccountProposal_Accept 4),
      (''Chris'', Exercise_Airdrop 5 1)]"

definition ledger_nft :: Ledger where
  "ledger_nft =
     \<lparr>next_cid = 7, assets = [(3, nft_asset ''Dianne'' 1), (6, nft_asset ''Alice'' 1)],
      transfers = [],
      accounts = [(0, chris_account), (2, chris_account\<lparr>AssetHoldingAccount.owner := ''Dianne''\<rparr>),
                  (5, chris_account\<lparr>AssetHoldingAccount.owner := ''Alice''\<rparr>)],
      proposals = []\<rparr>"

text \<open>The ledger with Alice's account alone.\<close>

definition ledger_account_only :: Ledger where
  "ledger_account_only = empty_ledger\<lparr>next_cid := 1, accounts := [(0, alice_account)]\<rparr>"

definition bob_asset :: "Decimal \<Rightarrow> Asset" where
  "bob_asset x = \<lparr>Asset.asset_type = alice_tkn, Asset.owner = ''Bob'', Asset.amount = x\<rparr>"

text \<open>
  The ledger after Bob has accepted the transfer of 5 and Alice has created a second
  transfer, of 3, to Bob.
\<close>

definition ledger_second_transfer :: Ledger where
  "ledger_second_transfer =
     \<lparr>next_cid = 10, assets = [(7, bob_asset 5), (8, alice_asset 7)],
      transfers = [(9, \<lparr>asset = alice_asset 10, AssetTransfer.recipient = ''Bob'',
                        AssetTransfer.amount = 3\<rparr>)],
      accounts = [(0, alice_account), (4, bob_account)], proposals = []\<rparr>"

text \<open>The ledger after Dianne has created a transfer of her NFT to Alice.\<close>

definition ledger_nft_in_transfer :: Ledger where
  "ledger_nft_in_transfer =
     ledger_nft\<lparr>next_cid := 9,
       assets := [(6, nft_asset ''Alice'' 1), (7, nft_asset ''Dianne'' 0)],
       transfers := [(8, \<lparr>asset = nft_asset ''Dianne'' 1, AssetTransfer.recipient = ''Alice'',
                         AssetTransfer.amount = 1\<rparr>)]\<rparr>"

section \<open>Preservation lemmas\<close>

lemma pres_returnU: "pres P (returnU x)"
  by (simp add: pres_def returnU_def)

lemma pres_assertMsg: "pres P (assertMsg msg b)"
  by (simp add: pres_def assertMsg_def)

lemma pres_fromSome: "pres P (fromSome x)"
  by (auto simp: pres_def fromSome_def split: option.splits)

lemma pres_bindU: "pres P m \<Longrightarrow> (\<And>x. pres P (f x)) \<Longrightarrow> pres P (bindU m f)"
proof (unfold pres_def, intro allI impI)
  fix L y L'
  assume m: "\<forall>L x L'. P L \<longrightarrow> m L = Inr (x, L') \<longrightarrow> P L'"
    and f: "\<And>x. \<forall>L y L'. P L \<longrightarrow> f x L = Inr (y, L') \<longrightarrow> P L'"
    and P: "P L" and r: "bindU m f L = Inr (y, L')"
  from r obtain x L1 where 1: "m L = Inr (x, L1)" and 2: "f x L1 = Inr (y, L')"
    by (auto simp: bindU_def split: sum.splits prod.splits)
  from m P 1 have "P L1" by blast
  with f 2 show "P L'" by blast
qed

lemma pres_add_Decimal: "pres P (add_Decimal x y)"
  by (simp add: pres_def add_Decimal_def)

lemma pres_sub_Decimal: "pres P (sub_Decimal x y)"
  by (simp add: pres_def sub_Decimal_def)

lemma pres_lookupByKeyAsset: "pres P (lookupByKeyAsset auth k)"
  by (auto simp: pres_def lookupByKeyAsset_def split: if_splits)

lemma pres_fetchAsset: "pres P (fetchAsset auth cid)"
  by (auto simp: pres_def fetchAsset_def split: option.splits if_splits)

lemma pres_option_case:
  "pres P m \<Longrightarrow> (\<And>c. pres P (f c)) \<Longrightarrow> pres P (case x of None \<Rightarrow> m | Some c \<Rightarrow> f c)"
  by (cases x) simp_all

lemma ensure_invariant: "Asset_ensure a = fungibility_invariant a"
  by (auto simp: Asset_ensure_def fungibility_invariant_def)

lemma set_remove_cid: "set (remove_cid cid xs) \<subseteq> set xs"
  by (auto simp: remove_cid_def)

lemma af_createAsset: "pres (assets_from L0) (createAsset auth a)"
  by (auto simp: pres_def createAsset_def assets_from_def ensure_invariant split: if_splits)

lemma af_archiveAsset: "pres (assets_from L0) (archiveAsset auth cid)"
  using set_remove_cid
  by (fastforce simp: pres_def archiveAsset_def assets_from_def split: option.splits if_splits)

lemma af_createAssetTransfer: "pres (assets_from L0) (createAssetTransfer auth t)"
  by (auto simp: pres_def createAssetTransfer_def assets_from_def split: if_splits)

lemma af_createAssetHoldingAccount: "pres (assets_from L0) (createAssetHoldingAccount auth t)"
  by (auto simp: pres_def createAssetHoldingAccount_def assets_from_def split: if_splits)

lemma af_createAssetHoldingAccountProposal: "pres (assets_from L0) (createAssetHoldingAccountProposal auth t)"
  by (auto simp: pres_def createAssetHoldingAccountProposal_def assets_from_def split: if_splits)

lemmas pres_intros = pres_bindU pres_returnU pres_assertMsg pres_fromSome pres_add_Decimal
  pres_sub_Decimal pres_lookupByKeyAsset
  pres_fetchAsset pres_option_case

lemmas af_intros = af_createAsset af_archiveAsset af_createAssetTransfer
  af_createAssetHoldingAccount af_createAssetHoldingAccountProposal

lemma af_previous: "pres (assets_from L0) (previous_asset_amount_of auth c)"
  unfolding previous_asset_amount_of_def by (intro pres_intros af_intros)

lemma af_Cancel_Transfer: "pres (assets_from L0) (Cancel_Transfer this auth)"
  unfolding Cancel_Transfer_def by (intro pres_intros af_intros af_previous)

lemma af_Reject_Transfer: "pres (assets_from L0) (Reject_Transfer this auth)"
  unfolding Reject_Transfer_def by (intro pres_intros af_intros)

lemma af_Accept_Transfer: "pres (assets_from L0) (Accept_Transfer this auth)"
  unfolding Accept_Transfer_def by (intro pres_intros af_intros)

lemma af_Invite: "pres (assets_from L0) (Invite_New_Asset_Holder this r auth)"
  unfolding Invite_New_Asset_Holder_def by (intro pres_intros af_intros)

lemma af_Airdrop: "pres (assets_from L0) (Airdrop this x auth)"
  unfolding Airdrop_def by (intro pres_intros af_intros af_previous)

lemma af_Create_Transfer: "pres (assets_from L0) (Create_Transfer this x r auth)"
  unfolding Create_Transfer_def by (intro pres_intros af_intros)

lemma af_Proposal_Accept: "pres (assets_from L0) (AssetHoldingAccountProposal_Accept this auth)"
  unfolding AssetHoldingAccountProposal_Accept_def by (intro pres_intros af_intros)

lemma af_Proposal_Reject: "pres (assets_from L0) (AssetHoldingAccountProposal_Reject this auth)"
  unfolding AssetHoldingAccountProposal_Reject_def by (intro pres_intros af_intros)

lemma af_exercise_transfer:
  "(\<And>this auth. pres (assets_from L0) (body this auth)) \<Longrightarrow>
   pres (assets_from L0) (exercise_transfer body ctl p cid)"
  unfolding pres_def exercise_transfer_def
proof (intro allI impI)
  fix L x L'
  assume b: "\<And>this auth. \<forall>L x L'. assets_from L0 L \<longrightarrow> body this auth L = Inr (x, L') \<longrightarrow> assets_from L0 L'"
    and P: "assets_from L0 L"
    and r: "(case map_of (transfers L) cid of None \<Rightarrow> Inl ContractNotFound
       | Some this \<Rightarrow> if ctl this \<noteq> p then Inl AuthorizationFailed
           else body this (AssetTransfer_signatory this @ [ctl this])
                  (L\<lparr>transfers := remove_cid cid (transfers L)\<rparr>)) = Inr (x, L')"
  from P have "assets_from L0 (L\<lparr>transfers := remove_cid cid (transfers L)\<rparr>)"
    by (simp add: assets_from_def)
  with r b show "assets_from L0 L'"
    by (auto split: option.splits if_splits)
qed

lemma af_exercise_account:
  "(\<And>this auth. pres (assets_from L0) (body this auth)) \<Longrightarrow>
   pres (assets_from L0) (exercise_account body ctl p cid)"
  unfolding pres_def exercise_account_def
  by (clarsimp split: option.splits if_splits)

lemma af_exercise_proposal:
  "(\<And>this auth. pres (assets_from L0) (body this auth)) \<Longrightarrow>
   pres (assets_from L0) (exercise_proposal body ctl p cid)"
  unfolding pres_def exercise_proposal_def
proof (intro allI impI)
  fix L x L'
  assume b: "\<And>this auth. \<forall>L x L'. assets_from L0 L \<longrightarrow> body this auth L = Inr (x, L') \<longrightarrow> assets_from L0 L'"
    and P: "assets_from L0 L"
    and r: "(case map_of (proposals L) cid of None \<Rightarrow> Inl ContractNotFound
       | Some this \<Rightarrow> if ctl this \<noteq> p then Inl AuthorizationFailed
           else body this (AssetHoldingAccountProposal_signatory this @ [ctl this])
                  (L\<lparr>proposals := remove_cid cid (proposals L)\<rparr>)) = Inr (x, L')"
  from P have "assets_from L0 (L\<lparr>proposals := remove_cid cid (proposals L)\<rparr>)"
    by (simp add: assets_from_def)
  with r b show "assets_from L0 L'"
    by (auto split: option.splits if_splits)
qed

lemma pres_ledger_of: "pres P m \<Longrightarrow> P L \<Longrightarrow> ledger_of m L = Inr L' \<Longrightarrow> P L'"
  by (auto simp: pres_def ledger_of_def split: sum.splits)

lemmas exercise_defs = exercise_Cancel_Transfer_def exercise_Reject_Transfer_def
   exercise_Accept_Transfer_def exercise_Invite_New_Asset_Holder_def exercise_Airdrop_def
   exercise_Create_Transfer_def exercise_AssetHoldingAccountProposal_Accept_def
   exercise_AssetHoldingAccountProposal_Reject_def

lemmas af_choices = af_Cancel_Transfer af_Reject_Transfer af_Accept_Transfer af_Invite af_Airdrop
  af_Create_Transfer af_Proposal_Accept af_Proposal_Reject

lemma af_command:
  "pres (assets_from L0) (createAsset [p] a)"
  "pres (assets_from L0) (createAssetTransfer [p] t)"
  "pres (assets_from L0) (createAssetHoldingAccount [p] acc)"
  "pres (assets_from L0) (createAssetHoldingAccountProposal [p] pr)"
  "pres (assets_from L0) (exercise_Cancel_Transfer p cid)"
  "pres (assets_from L0) (exercise_Reject_Transfer p cid)"
  "pres (assets_from L0) (exercise_Accept_Transfer p cid)"
  "pres (assets_from L0) (exercise_Invite_New_Asset_Holder p cid r)"
  "pres (assets_from L0) (exercise_Airdrop p cid x)"
  "pres (assets_from L0) (exercise_Create_Transfer p cid x r)"
  "pres (assets_from L0) (exercise_AssetHoldingAccountProposal_Accept p cid)"
  "pres (assets_from L0) (exercise_AssetHoldingAccountProposal_Reject p cid)"
  unfolding exercise_defs
  by (intro af_intros af_exercise_transfer af_exercise_account af_exercise_proposal af_choices)+

lemma af_submit: "assets_from L0 L \<Longrightarrow> submit p c L = Inr L' \<Longrightarrow> assets_from L0 L'"
  by (cases c) (simp_all, (erule (1) pres_ledger_of[OF af_command(1)] pres_ledger_of[OF af_command(2)]
     pres_ledger_of[OF af_command(3)] pres_ledger_of[OF af_command(4)] pres_ledger_of[OF af_command(5)]
     pres_ledger_of[OF af_command(6)] pres_ledger_of[OF af_command(7)] pres_ledger_of[OF af_command(8)]
     pres_ledger_of[OF af_command(9)] pres_ledger_of[OF af_command(10)] pres_ledger_of[OF af_command(11)]
     pres_ledger_of[OF af_command(12)])+)

section \<open>Lists of contracts and well-formed ledgers\<close>

subsection \<open>Lists of contracts\<close>

lemma find_map_of:
  "distinct (map fst xs) \<Longrightarrow> find P xs = Some e \<Longrightarrow> map_of xs (fst e) = Some (snd e)"
  by (induction xs) (auto split: if_splits simp: rev_image_eqI)

lemma find_Some_P: "find P xs = Some e \<Longrightarrow> P e \<and> e \<in> set xs"
  by (induction xs) (auto split: if_splits)

lemma find_key_None: "find_key key k xs = None \<longleftrightarrow> k \<notin> (\<lambda>e. key (snd e)) ` set xs"
  by (force simp: find_key_def find_None_iff)

lemma find_key_Some:
  "distinct (map fst xs) \<Longrightarrow> find_key key k xs = Some c \<Longrightarrow>
   \<exists>a. find (\<lambda>e. key (snd e) = k) xs = Some (c, a) \<and> map_of xs c = Some a \<and> key a = k"
proof -
  assume d: "distinct (map fst xs)" and f: "find_key key k xs = Some c"
  from f obtain e where e: "find (\<lambda>e. key (snd e) = k) xs = Some e" and c: "fst e = c"
    by (auto simp: find_key_def)
  from find_map_of[OF d e] find_Some_P[OF e] c e show ?thesis
    by (cases e) auto
qed

lemma map_of_remove_cid [simp]:
  "map_of (remove_cid c xs) c' = (if c' = c then None else map_of xs c')"
  by (induction xs) (auto simp: remove_cid_def)

lemma distinct_remove_cid:
  "distinct (map f xs) \<Longrightarrow> distinct (map f (remove_cid c xs))"
  by (simp add: remove_cid_def distinct_map_filter)

lemma list_all_remove_cid: "list_all P xs \<Longrightarrow> list_all P (remove_cid c xs)"
  by (simp add: remove_cid_def list_all_iff)

lemma wf_cids_remove: "wf_cids n xs \<Longrightarrow> wf_cids n (remove_cid c xs)"
  by (simp add: wf_cids_def distinct_remove_cid list_all_remove_cid)

lemma wf_cids_Suc: "wf_cids n xs \<Longrightarrow> wf_cids (Suc n) xs"
  by (auto simp: wf_cids_def list_all_iff)

lemma wf_cids_snoc: "wf_cids n xs \<Longrightarrow> wf_cids (Suc n) (xs @ [(n, a)])"
  by (auto simp: wf_cids_def list_all_iff)

lemma wf_cids_fresh: "wf_cids n xs \<Longrightarrow> n \<le> c \<Longrightarrow> map_of xs c = None"
  by (force simp: wf_cids_def list_all_iff map_of_eq_None_iff)

lemma key_removed:
  assumes "distinct (map fst xs)" "distinct (map (\<lambda>e. key (snd e)) xs)" "map_of xs c = Some a"
  shows "key a \<notin> (\<lambda>e. key (snd e)) ` set (remove_cid c xs)"
proof
  assume "key a \<in> (\<lambda>e. key (snd e)) ` set (remove_cid c xs)"
  then obtain e where e: "e \<in> set xs" "fst e \<noteq> c" "key (snd e) = key a"
    by (auto simp: remove_cid_def)
  from assms(3) have m: "(c, a) \<in> set xs" by (rule map_of_SomeD)
  from assms(2) have "inj_on (\<lambda>e. key (snd e)) (set xs)" by (simp add: distinct_map)
  from inj_onD[OF this, of e "(c, a)"] e m have "e = (c, a)" by simp
  with e show False by simp
qed

lemma find_remove_other:
  assumes "distinct (map fst xs)" "map_of xs c = Some a" "\<not> P (c, a)"
  shows "find P (remove_cid c xs) = find P xs"
  using assms
proof (induction xs)
  case Nil then show ?case by (simp add: remove_cid_def)
next
  case (Cons e xs)
  show ?case
  proof (cases "fst e = c")
    case True
    with Cons.prems have "e = (c, a)" by (cases e) auto
    moreover from True Cons.prems have "remove_cid c xs = xs"
      by (auto simp: remove_cid_def filter_id_conv rev_image_eqI)
    ultimately show ?thesis using Cons.prems by (simp add: remove_cid_def)
  next
    case False
    with Cons show ?thesis by (auto simp: remove_cid_def)
  qed
qed

lemma find_append: "find P (xs @ ys) = (case find P xs of None \<Rightarrow> find P ys | Some e \<Rightarrow> Some e)"
  by (induction xs) auto

lemma find_None_filter: "find P xs = None \<Longrightarrow> filter P xs = []"
  by (simp add: find_None_iff filter_empty_conv)

lemma map_of_snoc_old:
  "(c::ContractId) < n \<Longrightarrow> map_of (xs @ [(n, a)]) c = map_of xs c"
  by (cases "map_of xs c") (simp_all add: map_add_def)

subsection \<open>Well-formed ledgers are preserved\<close>

lemma wf_createAsset: "pres wf_ledger (createAsset auth a)"
  by (auto simp: pres_def createAsset_def wf_ledger_def wf_cids_snoc wf_cids_Suc find_key_None
      split: if_splits)

lemma wf_archiveAsset: "pres wf_ledger (archiveAsset auth cid)"
  by (auto simp: pres_def archiveAsset_def wf_ledger_def wf_cids_remove distinct_remove_cid
      list_all_remove_cid split: option.splits if_splits)

lemma wf_createAssetTransfer: "pres wf_ledger (createAssetTransfer auth t)"
  by (auto simp: pres_def createAssetTransfer_def wf_ledger_def wf_cids_snoc wf_cids_Suc
      split: if_splits)

lemma wf_createAssetHoldingAccount: "pres wf_ledger (createAssetHoldingAccount auth t)"
  by (auto simp: pres_def createAssetHoldingAccount_def wf_ledger_def wf_cids_snoc wf_cids_Suc
      find_key_None split: if_splits)

lemma wf_createAssetHoldingAccountProposal:
  "pres wf_ledger (createAssetHoldingAccountProposal auth t)"
  by (auto simp: pres_def createAssetHoldingAccountProposal_def wf_ledger_def wf_cids_snoc
      wf_cids_Suc split: if_splits)

lemmas wf_intros = wf_createAsset wf_archiveAsset wf_createAssetTransfer
  wf_createAssetHoldingAccount wf_createAssetHoldingAccountProposal

lemma wf_previous: "pres wf_ledger (previous_asset_amount_of auth c)"
  unfolding previous_asset_amount_of_def by (intro pres_intros wf_intros)

lemma wf_Cancel_Transfer: "pres wf_ledger (Cancel_Transfer this auth)"
  unfolding Cancel_Transfer_def by (intro pres_intros wf_intros wf_previous)

lemma wf_Reject_Transfer: "pres wf_ledger (Reject_Transfer this auth)"
  unfolding Reject_Transfer_def by (intro pres_intros wf_intros)

lemma wf_Accept_Transfer: "pres wf_ledger (Accept_Transfer this auth)"
  unfolding Accept_Transfer_def by (intro pres_intros wf_intros)

lemma wf_Invite: "pres wf_ledger (Invite_New_Asset_Holder this r auth)"
  unfolding Invite_New_Asset_Holder_def by (intro pres_intros wf_intros)

lemma wf_Airdrop: "pres wf_ledger (Airdrop this x auth)"
  unfolding Airdrop_def by (intro pres_intros wf_intros wf_previous)

lemma wf_Create_Transfer: "pres wf_ledger (Create_Transfer this x r auth)"
  unfolding Create_Transfer_def by (intro pres_intros wf_intros)

lemma wf_Proposal_Accept: "pres wf_ledger (AssetHoldingAccountProposal_Accept this auth)"
  unfolding AssetHoldingAccountProposal_Accept_def by (intro pres_intros wf_intros)

lemma wf_Proposal_Reject: "pres wf_ledger (AssetHoldingAccountProposal_Reject this auth)"
  unfolding AssetHoldingAccountProposal_Reject_def by (intro pres_intros wf_intros)

lemmas wf_choices = wf_Cancel_Transfer wf_Reject_Transfer wf_Accept_Transfer wf_Invite wf_Airdrop
  wf_Create_Transfer wf_Proposal_Accept wf_Proposal_Reject

lemma wf_exercise_transfer:
  assumes "\<And>this auth. pres wf_ledger (body this auth)"
  shows "pres wf_ledger (exercise_transfer body ctl p cid)"
proof (unfold pres_def, intro allI impI)
  fix L x L'
  assume P: "wf_ledger L" and r: "exercise_transfer body ctl p cid L = Inr (x, L')"
  from P have "wf_ledger (L\<lparr>transfers := remove_cid cid (transfers L)\<rparr>)"
    by (simp add: wf_ledger_def wf_cids_remove)
  with r assms show "wf_ledger L'"
    unfolding pres_def exercise_transfer_def by (auto split: option.splits if_splits)
qed

lemma wf_exercise_account:
  assumes "\<And>this auth. pres wf_ledger (body this auth)"
  shows "pres wf_ledger (exercise_account body ctl p cid)"
  using assms unfolding pres_def exercise_account_def
  by (clarsimp split: option.splits if_splits)

lemma wf_exercise_proposal:
  assumes "\<And>this auth. pres wf_ledger (body this auth)"
  shows "pres wf_ledger (exercise_proposal body ctl p cid)"
proof (unfold pres_def, intro allI impI)
  fix L x L'
  assume P: "wf_ledger L" and r: "exercise_proposal body ctl p cid L = Inr (x, L')"
  from P have "wf_ledger (L\<lparr>proposals := remove_cid cid (proposals L)\<rparr>)"
    by (simp add: wf_ledger_def wf_cids_remove)
  with r assms show "wf_ledger L'"
    unfolding pres_def exercise_proposal_def by (auto split: option.splits if_splits)
qed

lemma wf_command:
  "pres wf_ledger (createAsset [p] a)"
  "pres wf_ledger (createAssetTransfer [p] t)"
  "pres wf_ledger (createAssetHoldingAccount [p] acc)"
  "pres wf_ledger (createAssetHoldingAccountProposal [p] pr)"
  "pres wf_ledger (exercise_Cancel_Transfer p cid)"
  "pres wf_ledger (exercise_Reject_Transfer p cid)"
  "pres wf_ledger (exercise_Accept_Transfer p cid)"
  "pres wf_ledger (exercise_Invite_New_Asset_Holder p cid r)"
  "pres wf_ledger (exercise_Airdrop p cid x)"
  "pres wf_ledger (exercise_Create_Transfer p cid x r)"
  "pres wf_ledger (exercise_AssetHoldingAccountProposal_Accept p cid)"
  "pres wf_ledger (exercise_AssetHoldingAccountProposal_Reject p cid)"
  unfolding exercise_defs
  by (intro wf_intros wf_exercise_transfer wf_exercise_account wf_exercise_proposal wf_choices)+

lemma wf_submit: "wf_ledger L \<Longrightarrow> submit p c L = Inr L' \<Longrightarrow> wf_ledger L'"
  by (cases c) (simp_all, (erule (1) pres_ledger_of[OF wf_command(1)] pres_ledger_of[OF wf_command(2)]
     pres_ledger_of[OF wf_command(3)] pres_ledger_of[OF wf_command(4)] pres_ledger_of[OF wf_command(5)]
     pres_ledger_of[OF wf_command(6)] pres_ledger_of[OF wf_command(7)] pres_ledger_of[OF wf_command(8)]
     pres_ledger_of[OF wf_command(9)] pres_ledger_of[OF wf_command(10)] pres_ledger_of[OF wf_command(11)]
     pres_ledger_of[OF wf_command(12)])+)

lemma wf_empty_ledger: "wf_ledger empty_ledger"
  by (simp add: wf_ledger_def wf_cids_def empty_ledger_def)

section \<open>Failures of the choices\<close>

lemma authorized_append_self [simp]: "authorized (ps @ qs) ps"
  by (simp add: authorized_def list_all_iff)

lemma msgs_distinct:
  "msg_airdrop_amount \<noteq> msg_airdrop_not_accepted"
  "msg_airdrop_occupied \<noteq> msg_airdrop_not_accepted"
  by (simp_all add: msg_airdrop_amount_def msg_airdrop_not_accepted_def msg_airdrop_occupied_def)

lemma createAsset_not_assertion: "createAsset auth a L \<noteq> Inl (AssertionFailed m)"
  by (simp add: createAsset_def)

lemma add_Decimal_not_assertion: "add_Decimal x y L \<noteq> Inl (AssertionFailed m)"
  by (simp add: add_Decimal_def)

lemma previous_not_assertion:
  "previous_asset_amount_of auth c L \<noteq> Inl (AssertionFailed m)"
  by (auto simp: previous_asset_amount_of_def bindU_def returnU_def fetchAsset_def
      archiveAsset_def split: option.splits sum.splits if_splits)

lemma lookup_not_assertion: "lookupByKeyAsset auth k L \<noteq> Inl (AssertionFailed m)"
  by (simp add: lookupByKeyAsset_def)

lemma bindU_Inl_iff:
  "bindU m f L = Inl e \<longleftrightarrow> m L = Inl e \<or> (\<exists>x L1. m L = Inr (x, L1) \<and> f x L1 = Inl e)"
  by (auto simp: bindU_def split: sum.splits)

lemma Airdrop_not_accepted_iff:
  "Airdrop this x auth L = Inl (AssertionFailed msg_airdrop_not_accepted) \<longleftrightarrow>
     \<not> (airdroppable this \<or>
        issuer (AssetHoldingAccount.asset_type this) = AssetHoldingAccount.owner this)"
  unfolding Airdrop_def
  by (auto simp: bindU_Inl_iff assertMsg_def createAsset_not_assertion previous_not_assertion
      add_Decimal_not_assertion lookup_not_assertion msgs_distinct split: if_splits)

section \<open>Effects of the choices on a well-formed ledger\<close>

lemmas choice_defs =
  bindU_def returnU_def assertMsg_def fromSome_def add_Decimal_def sub_Decimal_def
  authorized_def some_authorized_def
  createAsset_def lookupByKeyAsset_def fetchAsset_def archiveAsset_def
  createAssetTransfer_def createAssetHoldingAccount_def createAssetHoldingAccountProposal_def
  previous_asset_amount_of_def Cancel_Transfer_def Reject_Transfer_def Accept_Transfer_def
  Invite_New_Asset_Holder_def Airdrop_def Create_Transfer_def AssetHoldingAccountProposal_Accept_def
  AssetHoldingAccountProposal_Reject_def exercise_transfer_def exercise_account_def
  exercise_proposal_def exercise_defs Invite_New_Asset_Holder_controller_def
  Asset_signatory_def Asset_maintainer_def AssetTransfer_signatory_def
  AssetHoldingAccount_signatory_def AssetHoldingAccountProposal_signatory_def

lemma asset_at_find:
  "asset_at L k = Some a \<longleftrightarrow> (\<exists>c. find (\<lambda>e. Asset_key (snd e) = k) (assets L) = Some (c, a))"
  by (auto simp: asset_at_def)

lemma asset_at_None:
  "asset_at L k = None \<longleftrightarrow> find (\<lambda>e. Asset_key (snd e) = k) (assets L) = None"
  by (simp add: asset_at_def)

text \<open>What a well-formed ledger knows of the Asset found at a key.\<close>

lemma found_asset:
  assumes "wf_ledger L" and "find (\<lambda>e. Asset_key (snd e) = k) (assets L) = Some (c, a)"
  shows "find_key Asset_key k (assets L) = Some c" and "map_of (assets L) c = Some a"
    and "Asset_key a = k" and "Asset_ensure a" and "c < next_cid L"
    and "find_key Asset_key k (remove_cid c (assets L)) = None"
    and "find (\<lambda>e. Asset_key (snd e) = k) (remove_cid c (assets L)) = None"
proof -
  from assms(1) have d: "distinct (map fst (assets L))"
    and dk: "distinct (map (\<lambda>e. Asset_key (snd e)) (assets L))"
    and en: "list_all (\<lambda>e. Asset_ensure (snd e)) (assets L)"
    and lt: "list_all (\<lambda>e. fst e < next_cid L) (assets L)"
    by (simp_all add: wf_ledger_def wf_cids_def)
  show "find_key Asset_key k (assets L) = Some c" using assms(2) by (simp add: find_key_def)
  from find_map_of[OF d assms(2)] show m: "map_of (assets L) c = Some a" by simp
  from find_Some_P[OF assms(2)] show k: "Asset_key a = k" by simp
  from find_Some_P[OF assms(2)] en show "Asset_ensure a" by (auto simp: list_all_iff)
  from find_Some_P[OF assms(2)] lt show "c < next_cid L" by (auto simp: list_all_iff)
  from key_removed[OF d dk m] k
  show n: "find_key Asset_key k (remove_cid c (assets L)) = None"
    by (simp add: find_key_None)
  then show "find (\<lambda>e. Asset_key (snd e) = k) (remove_cid c (assets L)) = None"
    by (simp add: find_key_def)
qed

lemma in_Decimal_range_0 [simp]: "in_Decimal_range 0"
  by (simp add: in_Decimal_range_def Decimal_max_def)

lemma Asset_key_eq: "Asset_key a = (ty, p) \<longleftrightarrow> Asset.asset_type a = ty \<and> Asset.owner a = p"
  by (auto simp: Asset_key_def)

lemma Asset_key_simps:
  "Asset_key \<lparr>Asset.asset_type = ty, Asset.owner = p, Asset.amount = v\<rparr> = (ty, p)"
  "Asset_key (a\<lparr>Asset.amount := v\<rparr>) = Asset_key a"
  "Asset_key (a\<lparr>Asset.amount := v, Asset.owner := p\<rparr>) = (Asset.asset_type a, p)"
  by (simp_all add: Asset_key_def)

lemma Create_Transfer_effect:
  assumes wf: "wf_ledger L" and acc: "map_of (accounts L) cid = Some acc"
    and a: "find (\<lambda>e. Asset_key (snd e) = AssetHoldingAccount_key acc) (assets L) = Some (c, a)"
  shows "exercise_Create_Transfer (AssetHoldingAccount.owner acc) cid x r L =
    (if \<not> x \<le> Asset.amount a then Inl (AssertionFailed msg_not_enough_funds)
     else if \<not> in_Decimal_range (Asset.amount a - x) then Inl ArithmeticError
     else if \<not> Asset_ensure (a\<lparr>Asset.amount := Asset.amount a - x\<rparr>) then Inl PreconditionFailed
     else Inr (Suc (next_cid L),
       L\<lparr>next_cid := Suc (Suc (next_cid L)),
         assets := remove_cid c (assets L) @ [(next_cid L, a\<lparr>Asset.amount := Asset.amount a - x\<rparr>)],
         transfers := transfers L @
           [(Suc (next_cid L),
             \<lparr>asset = a, AssetTransfer.recipient = r, AssetTransfer.amount = x\<rparr>)]\<rparr>))"
proof -
  note f = found_asset[OF wf a]
  from f(3) have ty: "Asset.asset_type a = AssetHoldingAccount.asset_type acc"
    and ow: "Asset.owner a = AssetHoldingAccount.owner acc"
    by (simp_all add: Asset_key_eq AssetHoldingAccount_key_def)
  have k: "Asset_key (a\<lparr>Asset.amount := Asset.amount a - x\<rparr>) = AssetHoldingAccount_key acc"
    using f(3) by (simp add: Asset_key_def)
  have look: "find_key Asset_key
      (AssetHoldingAccount.asset_type acc, AssetHoldingAccount.owner acc) (assets L) = Some c"
    using f(1) by (simp add: AssetHoldingAccount_key_def)
  show ?thesis
    using acc look f(2) f(6) ty ow k
    by (simp add: choice_defs)
qed

lemma Create_Transfer_no_asset:
  assumes "map_of (accounts L) cid = Some acc"
    and "find (\<lambda>e. Asset_key (snd e) = AssetHoldingAccount_key acc) (assets L) = None"
  shows "exercise_Create_Transfer (AssetHoldingAccount.owner acc) cid x r L =
           Inl (AssertionFailed msg_not_enough_funds)"
  using assms by (simp add: choice_defs find_key_def AssetHoldingAccount_key_def)

lemma Accept_Transfer_effect_some:
  assumes wf: "wf_ledger L" and t: "map_of (transfers L) cid = Some t"
    and a: "find (\<lambda>e. Asset_key (snd e) =
              (Asset.asset_type (asset t), AssetTransfer.recipient t)) (assets L) = Some (c, old)"
  shows "exercise_Accept_Transfer (AssetTransfer.recipient t) cid L =
    (if \<not> fungible (Asset.asset_type (asset t))
       then Inl (AssertionFailed msg_accept_nonfungible)
     else if \<not> in_Decimal_range (AssetTransfer.amount t + Asset.amount old)
       then Inl ArithmeticError
     else if \<not> Asset_ensure ((asset t)\<lparr>Asset.amount := AssetTransfer.amount t + Asset.amount old,
                                        Asset.owner := AssetTransfer.recipient t\<rparr>)
       then Inl PreconditionFailed
     else Inr (next_cid L,
       L\<lparr>next_cid := Suc (next_cid L),
         transfers := remove_cid cid (transfers L),
         assets := remove_cid c (assets L) @
           [(next_cid L, (asset t)\<lparr>Asset.amount := AssetTransfer.amount t + Asset.amount old,
                                   Asset.owner := AssetTransfer.recipient t\<rparr>)]\<rparr>))"
proof -
  note f = found_asset[OF wf a]
  from f(3) have ty: "Asset.asset_type old = Asset.asset_type (asset t)"
    and ow: "Asset.owner old = AssetTransfer.recipient t"
    by (simp_all add: Asset_key_eq)
  have k: "Asset_key ((asset t)\<lparr>Asset.amount := AssetTransfer.amount t + Asset.amount old,
                               Asset.owner := AssetTransfer.recipient t\<rparr>) =
           (Asset.asset_type (asset t), AssetTransfer.recipient t)"
    by (simp add: Asset_key_def)
  show ?thesis
    using t f(1) f(2) f(6) ty ow k
    by (simp add: choice_defs)
qed

lemma Accept_Transfer_effect_none:
  assumes t: "map_of (transfers L) cid = Some t"
    and a: "find (\<lambda>e. Asset_key (snd e) =
              (Asset.asset_type (asset t), AssetTransfer.recipient t)) (assets L) = None"
  shows "exercise_Accept_Transfer (AssetTransfer.recipient t) cid L =
    (if \<not> in_Decimal_range (AssetTransfer.amount t) then Inl ArithmeticError
     else if \<not> Asset_ensure ((asset t)\<lparr>Asset.amount := AssetTransfer.amount t,
                                   Asset.owner := AssetTransfer.recipient t\<rparr>)
       then Inl PreconditionFailed
     else Inr (next_cid L,
       L\<lparr>next_cid := Suc (next_cid L),
         transfers := remove_cid cid (transfers L),
         assets := assets L @
           [(next_cid L, (asset t)\<lparr>Asset.amount := AssetTransfer.amount t,
                                   Asset.owner := AssetTransfer.recipient t\<rparr>)]\<rparr>))"
proof -
  have k: "Asset_key ((asset t)\<lparr>Asset.amount := AssetTransfer.amount t,
                               Asset.owner := AssetTransfer.recipient t\<rparr>) =
           (Asset.asset_type (asset t), AssetTransfer.recipient t)"
    by (simp add: Asset_key_def)
  from a have "find_key Asset_key (Asset.asset_type (asset t), AssetTransfer.recipient t)
      (assets L) = None"
    by (simp add: find_key_def)
  with t k show ?thesis
    by (simp add: choice_defs)
qed

lemma Airdrop_effect_some:
  assumes wf: "wf_ledger L" and acc: "map_of (accounts L) cid = Some acc"
    and a: "find (\<lambda>e. Asset_key (snd e) = AssetHoldingAccount_key acc) (assets L) = Some (c, old)"
  shows "exercise_Airdrop (issuer (AssetHoldingAccount.asset_type acc)) cid x L =
    (if \<not> (airdroppable acc \<or>
            issuer (AssetHoldingAccount.asset_type acc) = AssetHoldingAccount.owner acc)
       then Inl (AssertionFailed msg_airdrop_not_accepted)
     else if \<not> (fungible (AssetHoldingAccount.asset_type acc) \<or> x = 1)
       then Inl (AssertionFailed msg_airdrop_amount)
     else if \<not> fungible (AssetHoldingAccount.asset_type acc)
       then Inl (AssertionFailed msg_airdrop_occupied)
     else if \<not> in_Decimal_range (x + Asset.amount old) then Inl ArithmeticError
     else if \<not> Asset_ensure \<lparr>Asset.asset_type = AssetHoldingAccount.asset_type acc,
                Asset.owner = AssetHoldingAccount.owner acc,
                Asset.amount = x + Asset.amount old\<rparr>
       then Inl PreconditionFailed
     else Inr (next_cid L,
       L\<lparr>next_cid := Suc (next_cid L),
         assets := remove_cid c (assets L) @
           [(next_cid L, \<lparr>Asset.asset_type = AssetHoldingAccount.asset_type acc,
                Asset.owner = AssetHoldingAccount.owner acc,
                Asset.amount = x + Asset.amount old\<rparr>)]\<rparr>))"
proof -
  note f = found_asset[OF wf a]
  from f(3) have ty: "Asset.asset_type old = AssetHoldingAccount.asset_type acc"
    and ow: "Asset.owner old = AssetHoldingAccount.owner acc"
    by (simp_all add: Asset_key_eq AssetHoldingAccount_key_def)
  have look: "find_key Asset_key
      (AssetHoldingAccount.asset_type acc, AssetHoldingAccount.owner acc) (assets L) = Some c"
    using f(1) by (simp add: AssetHoldingAccount_key_def)
  have gone: "find_key Asset_key
      (AssetHoldingAccount.asset_type acc, AssetHoldingAccount.owner acc)
      (remove_cid c (assets L)) = None"
    using f(6) by (simp add: AssetHoldingAccount_key_def)
  show ?thesis
    using acc look f(2) gone ty ow
    by (auto simp: choice_defs Asset_key_simps)
qed

lemma Airdrop_effect_none:
  assumes acc: "map_of (accounts L) cid = Some acc"
    and a: "find (\<lambda>e. Asset_key (snd e) = AssetHoldingAccount_key acc) (assets L) = None"
  shows "exercise_Airdrop (issuer (AssetHoldingAccount.asset_type acc)) cid x L =
    (if \<not> (airdroppable acc \<or>
            issuer (AssetHoldingAccount.asset_type acc) = AssetHoldingAccount.owner acc)
       then Inl (AssertionFailed msg_airdrop_not_accepted)
     else if \<not> (fungible (AssetHoldingAccount.asset_type acc) \<or> x = 1)
       then Inl (AssertionFailed msg_airdrop_amount)
     else if \<not> in_Decimal_range x then Inl ArithmeticError
     else if \<not> Asset_ensure \<lparr>Asset.asset_type = AssetHoldingAccount.asset_type acc,
                Asset.owner = AssetHoldingAccount.owner acc, Asset.amount = x\<rparr>
       then Inl PreconditionFailed
     else Inr (next_cid L,
       L\<lparr>next_cid := Suc (next_cid L),
         assets := assets L @
           [(next_cid L, \<lparr>Asset.asset_type = AssetHoldingAccount.asset_type acc,
                Asset.owner = AssetHoldingAccount.owner acc, Asset.amount = x\<rparr>)]\<rparr>))"
proof -
  from a have "find_key Asset_key
      (AssetHoldingAccount.asset_type acc, AssetHoldingAccount.owner acc) (assets L) = None"
    by (simp add: find_key_def AssetHoldingAccount_key_def)
  with acc show ?thesis
    by (simp add: choice_defs Asset_key_simps)
qed

lemma exercise_not_controller:
  "map_of (accounts L) cid = Some acc \<Longrightarrow> p \<noteq> ctl acc \<Longrightarrow>
     exercise_account body ctl p cid L = Inl AuthorizationFailed"
  "map_of (transfers L) cid' = Some t \<Longrightarrow> p \<noteq> ctl' t \<Longrightarrow>
     exercise_transfer body' ctl' p cid' L = Inl AuthorizationFailed"
  by (simp_all add: exercise_account_def exercise_transfer_def)

text \<open>Rejections in sequence leave every other transfer and every Asset alone.\<close>

lemma Reject_Transfer_effect:
  assumes "map_of (transfers L) cid = Some t"
  shows "exercise_Reject_Transfer (AssetTransfer.recipient t) cid L =
           Inr (next_cid L,
             L\<lparr>next_cid := Suc (next_cid L),
               transfers := remove_cid cid (transfers L) @
                 [(next_cid L, t\<lparr>AssetTransfer.recipient := Asset.owner (asset t)\<rparr>)]\<rparr>)"
  using assms
  by (simp add: exercise_Reject_Transfer_def exercise_transfer_def Reject_Transfer_def
      createAssetTransfer_def AssetTransfer_signatory_def)

lemma reject_times_returns_to_owner:
  assumes "wf_cids (next_cid L) (transfers L)" and "map_of (transfers L) cid = Some t"
  shows "\<exists>cid' L'. reject_times (Suc n) cid L = Inr (cid', L') \<and>
           map_of (transfers L') cid' = Some (t\<lparr>AssetTransfer.recipient := Asset.owner (asset t)\<rparr>) \<and>
           next_cid L \<le> cid' \<and>
           (\<forall>c < next_cid L. map_of (transfers L') c =
              (if c = cid then None else map_of (transfers L) c)) \<and>
           assets L' = assets L \<and> accounts L' = accounts L \<and> proposals L' = proposals L"
  using assms
proof (induction n arbitrary: L cid t)
  case 0
  from wf_cids_fresh[OF wf_cids_remove[OF 0(1)], of "next_cid L" cid]
  have fresh: "map_of (remove_cid cid (transfers L)) (next_cid L) = None" by simp
  let ?t' = "t\<lparr>AssetTransfer.recipient := Asset.owner (asset t)\<rparr>"
  let ?L1 = "L\<lparr>next_cid := Suc (next_cid L),
      transfers := remove_cid cid (transfers L) @ [(next_cid L, ?t')]\<rparr>"
  have t1: "map_of (transfers ?L1) (next_cid L) = Some ?t'"
    using fresh by (simp add: map_add_def)
  have old: "\<forall>c < next_cid L. map_of (transfers ?L1) c =
      (if c = cid then None else map_of (transfers L) c)"
    by (simp add: map_of_snoc_old del: map_of_append)
  have run: "reject_times (Suc 0) cid L = Inr (next_cid L, ?L1)"
    using 0(2) by (simp add: Reject_Transfer_effect[OF 0(2)])
  show ?case
    unfolding run using t1 old by (intro exI[of _ "next_cid L"] exI[of _ ?L1]) simp
next
  case (Suc n)
  let ?t' = "t\<lparr>AssetTransfer.recipient := Asset.owner (asset t)\<rparr>"
  let ?L1 = "L\<lparr>next_cid := Suc (next_cid L),
      transfers := remove_cid cid (transfers L) @ [(next_cid L, ?t')]\<rparr>"
  from wf_cids_fresh[OF wf_cids_remove[OF Suc.prems(1)], of "next_cid L" cid]
  have fresh: "map_of (remove_cid cid (transfers L)) (next_cid L) = None" by simp
  have wf1: "wf_cids (next_cid ?L1) (transfers ?L1)"
    using wf_cids_snoc[OF wf_cids_remove[OF Suc.prems(1)], of cid ?t'] by simp
  have t1: "map_of (transfers ?L1) (next_cid L) = Some ?t'"
    using fresh by (simp add: map_add_def)
  have old: "\<forall>c < next_cid L. map_of (transfers ?L1) c =
      (if c = cid then None else map_of (transfers L) c)"
    by (simp add: map_of_snoc_old del: map_of_append)
  from Suc.IH[OF wf1 t1] obtain cid' L'
    where r: "reject_times (Suc n) (next_cid L) ?L1 = Inr (cid', L')"
      and m: "map_of (transfers L') cid' = Some ?t'" and le: "Suc (next_cid L) \<le> cid'"
      and fr: "\<forall>c < Suc (next_cid L). map_of (transfers L') c =
        (if c = next_cid L then None else map_of (transfers ?L1) c)"
      and as: "assets L' = assets L" "accounts L' = accounts L" "proposals L' = proposals L"
    by auto
  have step: "reject_times (Suc (Suc n)) cid L = reject_times (Suc n) (next_cid L) ?L1"
    using Suc.prems(2) by (simp add: Reject_Transfer_effect[OF Suc.prems(2)])
  from fr old have "\<forall>c < next_cid L. map_of (transfers L') c =
      (if c = cid then None else map_of (transfers L) c)"
    by auto
  with r m le as step show ?case by auto
qed

section \<open>Running the test script\<close>

lemmas model_defs = choice_defs ledger_of_def remove_cid_def find_key_def
  Asset_ensure_def Asset_key_def AssetHoldingAccount_key_def in_Decimal_range_def Decimal_max_def

lemmas fixture_defs = alice_tkn_def chris_nft_def alice_account_def bob_account_def alice_asset_def
  chris_account_def nft_asset_def empty_ledger_def

lemma script_enrol_runs: "run script_enrol empty_ledger = Inr ledger_enrolled"
  by (simp add: script_enrol_def ledger_enrolled_def model_defs fixture_defs)

lemma script_transfer_runs:
  "submit ''Alice'' (Exercise_Create_Transfer 0 5 ''Bob'') ledger_enrolled = Inr ledger_in_transfer"
  by (simp add: ledger_enrolled_def ledger_in_transfer_def model_defs fixture_defs)

lemma script_nft_runs: "run script_nft empty_ledger = Inr ledger_nft"
  by (simp add: script_nft_def ledger_nft_def model_defs fixture_defs)

lemma wf_fixtures: "wf_ledger ledger_enrolled" "wf_ledger ledger_in_transfer" "wf_ledger ledger_nft"
  by (simp_all add: wf_ledger_def wf_cids_def ledger_enrolled_def ledger_in_transfer_def
      ledger_nft_def Asset_key_def AssetHoldingAccount_key_def Asset_ensure_def fixture_defs)

lemmas fixture_defs2 = fixture_defs bob_asset_def ledger_account_only_def

lemma script_more_runs:
  "submit ''Alice'' (Create_AssetHoldingAccount alice_account) empty_ledger =
     Inr ledger_account_only"
  "run [(''Bob'', Exercise_Accept_Transfer 6), (''Alice'', Exercise_Create_Transfer 0 3 ''Bob'')]
     ledger_in_transfer = Inr ledger_second_transfer"
  "submit ''Dianne'' (Exercise_Create_Transfer 2 1 ''Alice'') ledger_nft = Inr ledger_nft_in_transfer"
  by (simp_all add: ledger_in_transfer_def ledger_second_transfer_def ledger_nft_def
      ledger_nft_in_transfer_def model_defs fixture_defs2)

lemma wf_fixtures2:
  "wf_ledger ledger_account_only" "wf_ledger ledger_second_transfer"
  "wf_ledger ledger_nft_in_transfer"
  by (simp_all add: wf_ledger_def wf_cids_def ledger_second_transfer_def ledger_nft_def
      ledger_nft_in_transfer_def Asset_key_def AssetHoldingAccount_key_def Asset_ensure_def
      fixture_defs2)

text \<open>The submissions that the test script expects to fail do fail.\<close>

lemma script_must_fail:
  "submit ''Alice'' (Create_AssetHoldingAccount (alice_account\<lparr>airdroppable := True\<rparr>))
     ledger_account_only = Inl DuplicateKey"
  "submit ''Alice'' (Exercise_Airdrop 4 5) ledger_enrolled =
     Inl (AssertionFailed msg_airdrop_not_accepted)"
  "submit ''Chris'' (Exercise_Airdrop 2 20) ledger_nft = Inl (AssertionFailed msg_airdrop_amount)"
  by (simp_all add: ledger_enrolled_def ledger_nft_def model_defs fixture_defs2)

section \<open>Claims\<close>

text \<open>
  C1: every Asset record that a command creates, whether by a direct create or inside
  Airdrop, Create_Transfer, Cancel_Transfer or Accept_Transfer, satisfies the fungibility
  invariant: a fungible asset has an amount above 0, a non-fungible one the amount 0 or 1.
  A create of an Asset that violates the invariant fails.
\<close>

theorem C1_fungibility_invariant:
  "(\<not> fungibility_invariant a \<longrightarrow> createAsset auth a L0 = Inl PreconditionFailed) \<and>
   (submit p c L = Inr L' \<longrightarrow> (cid, x) \<in> set (assets L') \<longrightarrow> (cid, x) \<notin> set (assets L) \<longrightarrow>
      fungibility_invariant x)"
proof (intro conjI impI)
  assume "\<not> fungibility_invariant a"
  then show "createAsset auth a L0 = Inl PreconditionFailed"
    by (simp add: createAsset_def ensure_invariant)
next
  assume s: "submit p c L = Inr L'" and m: "(cid, x) \<in> set (assets L')"
    and n: "(cid, x) \<notin> set (assets L)"
  have "assets_from L L" by (simp add: assets_from_def)
  from af_submit[OF this s] m n show "fungibility_invariant x"
    by (auto simp: assets_from_def)
qed

theorem C1_fungibility_invariant_witness:
  "createAsset [''Alice''] \<lparr>Asset.asset_type = alice_tkn, Asset.owner = ''Alice'', Asset.amount = 0\<rparr>
     empty_ledger = Inl PreconditionFailed \<and>
   submit ''Alice''
     (Create_Asset \<lparr>Asset.asset_type = alice_tkn, Asset.owner = ''Alice'', Asset.amount = 10\<rparr>)
     empty_ledger =
     Inr \<lparr>next_cid = 1,
          assets = [(0, \<lparr>Asset.asset_type = alice_tkn, Asset.owner = ''Alice'', Asset.amount = 10\<rparr>)],
          transfers = [], accounts = [], proposals = []\<rparr> \<and>
   fungibility_invariant \<lparr>Asset.asset_type = alice_tkn, Asset.owner = ''Alice'', Asset.amount = 10\<rparr>"
proof -
  let ?bad = "\<lparr>Asset.asset_type = alice_tkn, Asset.owner = ''Alice'', Asset.amount = 0\<rparr>"
  let ?good = "\<lparr>Asset.asset_type = alice_tkn, Asset.owner = ''Alice'', Asset.amount = 10\<rparr>"
  let ?L' = "\<lparr>next_cid = 1, assets = [(0, ?good)], transfers = [], accounts = [], proposals = []\<rparr>"
  have bad: "\<not> fungibility_invariant ?bad"
    by (simp add: fungibility_invariant_def alice_tkn_def)
  have run: "submit ''Alice'' (Create_Asset ?good) empty_ledger = Inr ?L'"
    by (simp add: ledger_of_def createAsset_def Asset_ensure_def alice_tkn_def authorized_def
        Asset_signatory_def find_key_def Asset_key_def empty_ledger_def)
  have new: "(0, ?good) \<in> set (assets ?L')" "(0, ?good) \<notin> set (assets empty_ledger)"
    by (simp_all add: empty_ledger_def)
  from C1_fungibility_invariant [of ?bad "[''Alice'']" empty_ledger "''Alice''" "Create_Asset ?good"
      empty_ledger ?L' 0 ?good] bad run new
  show ?thesis by simp
qed

text \<open>
  C2, as amended: on a well-formed ledger, let the sender own an active Asset of amount b
  and let a be at most b. If the recipient is not the sender, the residual amount b - a
  and the recipient's merged amount a + p (p the recipient's previous amount, 0 if none)
  are both within the range of Decimal and both satisfy the ensure clause of Asset, and
  the recipient holds no Asset of the type unless the type is fungible, then
  Create_Transfer of a followed by the recipient's Accept_Transfer succeeds, leaves the
  sender's Asset at b - a and the recipient's at a + p, and the total of the two balances
  is what it was. As stated for every amount and every recipient the claim fails: a
  recipient that already holds a non-fungible Asset of the type cannot accept, a recipient
  without an Asset cannot accept the amount 0, and a transfer to the sender itself leaves
  the sender at b.
\<close>

theorem C2_transfer_then_accept:
  assumes wf: "wf_ledger L" and acc: "map_of (accounts L) cid = Some acc"
    and a: "asset_at L (AssetHoldingAccount_key acc) = Some a"
    and le: "x \<le> Asset.amount a"
    and rng1: "in_Decimal_range (Asset.amount a - x)"
    and res: "Asset_ensure (a\<lparr>Asset.amount := Asset.amount a - x\<rparr>)"
    and ne: "r \<noteq> AssetHoldingAccount.owner acc"
    and rec: "asset_at L (AssetHoldingAccount.asset_type acc, r) = None \<or>
              fungible (AssetHoldingAccount.asset_type acc)"
    and rng2: "in_Decimal_range (x + balance L (AssetHoldingAccount.asset_type acc, r))"
    and new: "Asset_ensure
      (a\<lparr>Asset.amount := x + balance L (AssetHoldingAccount.asset_type acc, r), Asset.owner := r\<rparr>)"
  shows "\<exists>tc L1 rc L2.
           exercise_Create_Transfer (AssetHoldingAccount.owner acc) cid x r L = Inr (tc, L1) \<and>
           exercise_Accept_Transfer r tc L1 = Inr (rc, L2) \<and>
           asset_at L2 (AssetHoldingAccount_key acc) =
             Some (a\<lparr>Asset.amount := Asset.amount a - x\<rparr>) \<and>
           asset_at L2 (AssetHoldingAccount.asset_type acc, r) =
             Some (a\<lparr>Asset.amount := x + balance L (AssetHoldingAccount.asset_type acc, r),
                     Asset.owner := r\<rparr>) \<and>
           balance L2 (AssetHoldingAccount_key acc) +
             balance L2 (AssetHoldingAccount.asset_type acc, r) =
           balance L (AssetHoldingAccount_key acc) +
             balance L (AssetHoldingAccount.asset_type acc, r)"
proof -
  let ?ty = "AssetHoldingAccount.asset_type acc"
  let ?ks = "AssetHoldingAccount_key acc"
  let ?kr = "(?ty, r)"
  let ?Ps = "\<lambda>e. Asset_key (snd e) = ?ks"
  let ?Pr = "\<lambda>e. Asset_key (snd e) = ?kr"
  let ?n = "next_cid L"
  let ?a' = "a\<lparr>Asset.amount := Asset.amount a - x\<rparr>"
  let ?t = "\<lparr>asset = a, AssetTransfer.recipient = r, AssetTransfer.amount = x\<rparr>"
  let ?new = "a\<lparr>Asset.amount := x + balance L ?kr, Asset.owner := r\<rparr>"
  from a obtain c where f: "find ?Ps (assets L) = Some (c, a)"
    by (auto simp: asset_at_find)
  note fa = found_asset[OF wf f]
  define A1 where "A1 = remove_cid c (assets L) @ [(?n, ?a')]"
  let ?L1 = "L\<lparr>next_cid := Suc (Suc ?n), assets := A1,
      transfers := transfers L @ [(Suc ?n, ?t)]\<rparr>"
  from fa(3) have ty: "Asset.asset_type a = ?ty" and ow: "Asset.owner a = AssetHoldingAccount.owner acc"
    by (simp_all add: Asset_key_eq AssetHoldingAccount_key_def)
  have step1: "exercise_Create_Transfer (AssetHoldingAccount.owner acc) cid x r L = Inr (Suc ?n, ?L1)"
    using le rng1 res by (simp add: Create_Transfer_effect[OF wf acc f] A1_def)
  have wf1: "wf_ledger ?L1"
    using wf_command(10)[of "AssetHoldingAccount.owner acc" cid x r] wf step1
    unfolding pres_def by blast
  from wf have "wf_cids ?n (transfers L)" and d: "distinct (map fst (assets L))"
    by (simp_all add: wf_ledger_def wf_cids_def)
  then have "map_of (transfers L) (Suc ?n) = None"
    by (intro wf_cids_fresh[of ?n]) simp_all
  then have t1: "map_of (transfers ?L1) (Suc ?n) = Some ?t"
    by (simp add: map_add_def)
  have nPr: "\<not> ?Pr (c, a)" "\<not> ?Pr (?n, ?a')"
    using ne ow by (simp_all add: Asset_key_eq)
  have Ps': "?Ps (?n, ?a')"
    using fa(3) by (simp add: Asset_key_simps)
  have findr1: "find ?Pr A1 = find ?Pr (assets L)"
    using nPr(2)
    by (simp add: A1_def find_append find_remove_other[where P="?Pr", OF d fa(2) nPr(1)]
        split: option.splits)
  have finds1: "find ?Ps A1 = Some (?n, ?a')"
    using Ps' by (simp add: A1_def find_append fa(7))
  have bs: "balance L ?ks = Asset.amount a"
    using a by (simp add: balance_def)
  show ?thesis
  proof (cases "find ?Pr (assets L)")
    case None
    then have b: "balance L ?kr = 0" by (simp add: balance_def asset_at_def)
    let ?L2 = "?L1\<lparr>next_cid := Suc (Suc (Suc ?n)),
        transfers := remove_cid (Suc ?n) (transfers ?L1),
        assets := A1 @ [(Suc (Suc ?n), ?new)]\<rparr>"
    have n1: "find (\<lambda>e. Asset_key (snd e) =
        (Asset.asset_type (asset ?t), AssetTransfer.recipient ?t)) (assets ?L1) = None"
      using findr1 None ty by simp
    have step2: "exercise_Accept_Transfer r (Suc ?n) ?L1 = Inr (Suc (Suc ?n), ?L2)"
      using Accept_Transfer_effect_none[OF t1 n1] new rng2 b by simp
    have Pr_new: "?Pr (Suc (Suc ?n), ?new)" "\<not> ?Ps (Suc (Suc ?n), ?new)"
      using ty ne by (simp_all add: Asset_key_eq AssetHoldingAccount_key_def)
    have s2: "asset_at ?L2 ?ks = Some ?a'"
      using finds1 by (simp add: asset_at_def find_append)
    have r2: "asset_at ?L2 ?kr = Some ?new"
      using findr1 None Pr_new(1) by (simp add: asset_at_def find_append)
    have "balance ?L2 ?ks = Asset.amount a - x" and "balance ?L2 ?kr = x + balance L ?kr"
      using s2 r2 by (simp_all add: balance_def)
    with bs have "balance ?L2 ?ks + balance ?L2 ?kr = balance L ?ks + balance L ?kr"
      by simp
    with step1 step2 s2 r2 show ?thesis by blast
  next
    case (Some e)
    then obtain rc old where e: "find ?Pr (assets L) = Some (rc, old)"
      by (cases e) simp
    then have b: "balance L ?kr = Asset.amount old" by (simp add: balance_def asset_at_def)
    from e rec have fu: "fungible ?ty" by (simp add: asset_at_def)
    let ?L2 = "?L1\<lparr>next_cid := Suc (Suc (Suc ?n)),
        transfers := remove_cid (Suc ?n) (transfers ?L1),
        assets := remove_cid rc A1 @ [(Suc (Suc ?n), ?new)]\<rparr>"
    have e1: "find (\<lambda>e. Asset_key (snd e) =
        (Asset.asset_type (asset ?t), AssetTransfer.recipient ?t)) (assets ?L1) = Some (rc, old)"
      using findr1 e ty by simp
    note fr = found_asset[OF wf1 e1]
    have step2: "exercise_Accept_Transfer r (Suc ?n) ?L1 = Inr (Suc (Suc ?n), ?L2)"
      using Accept_Transfer_effect_some[OF wf1 t1 e1] new rng2 b fu ty by (simp add: add.commute)
    have Pr_new: "?Pr (Suc (Suc ?n), ?new)" "\<not> ?Ps (Suc (Suc ?n), ?new)"
      using ty ne by (simp_all add: Asset_key_eq AssetHoldingAccount_key_def)
    from wf1 have d1: "distinct (map fst A1)"
      by (simp add: wf_ledger_def wf_cids_def)
    have nPs: "\<not> ?Ps (rc, old)"
      using fr(3) ne by (auto simp: Asset_key_eq AssetHoldingAccount_key_def)
    have s2: "asset_at ?L2 ?ks = Some ?a'"
      using finds1 find_remove_other[where P="?Ps" and xs=A1 and c=rc and a=old] d1 fr(2) nPs
      by (simp add: asset_at_def find_append)
    have gone: "find ?Pr (remove_cid rc A1) = None"
      using fr(7) ty by simp
    have r2: "asset_at ?L2 ?kr = Some ?new"
      using gone Pr_new(1) by (simp add: asset_at_def find_append)
    have "balance ?L2 ?ks = Asset.amount a - x" and "balance ?L2 ?kr = x + balance L ?kr"
      using s2 r2 by (simp_all add: balance_def)
    with bs have "balance ?L2 ?ks + balance ?L2 ?kr = balance L ?ks + balance L ?kr"
      by simp
    with step1 step2 s2 r2 show ?thesis by blast
  qed
qed

theorem C2_transfer_then_accept_witness:
  "exercise_Create_Transfer ''Alice'' 0 5 ''Bob'' ledger_enrolled = Inr (6, ledger_in_transfer) \<and>
   exercise_Accept_Transfer ''Bob'' 6 ledger_in_transfer =
     Inr (7, ledger_in_transfer
       \<lparr>next_cid := 8, transfers := [], assets := [(5, alice_asset 10), (7, bob_asset 5)]\<rparr>) \<and>
   asset_at (ledger_in_transfer
       \<lparr>next_cid := 8, transfers := [], assets := [(5, alice_asset 10), (7, bob_asset 5)]\<rparr>)
     (alice_tkn, ''Alice'') = Some (alice_asset 10) \<and>
   asset_at (ledger_in_transfer
       \<lparr>next_cid := 8, transfers := [], assets := [(5, alice_asset 10), (7, bob_asset 5)]\<rparr>)
     (alice_tkn, ''Bob'') = Some (bob_asset 5)"
proof -
  let ?L2 = "ledger_in_transfer
       \<lparr>next_cid := 8, transfers := [], assets := [(5, alice_asset 10), (7, bob_asset 5)]\<rparr>"
  have acc: "map_of (accounts ledger_enrolled) 0 = Some alice_account"
    by (simp add: ledger_enrolled_def)
  have k: "AssetHoldingAccount_key alice_account = (alice_tkn, ''Alice'')"
    and o: "AssetHoldingAccount.owner alice_account = ''Alice''"
    and ty: "AssetHoldingAccount.asset_type alice_account = alice_tkn"
    by (simp_all add: AssetHoldingAccount_key_def alice_account_def)
  have a: "asset_at ledger_enrolled (AssetHoldingAccount_key alice_account) = Some (alice_asset 15)"
    by (simp add: k asset_at_def ledger_enrolled_def Asset_key_def alice_asset_def)
  have b: "balance ledger_enrolled (alice_tkn, ''Bob'') = 0"
    and n: "asset_at ledger_enrolled (alice_tkn, ''Bob'') = None"
    by (simp_all add: balance_def asset_at_def ledger_enrolled_def Asset_key_def alice_asset_def)
  have le: "(5 :: Decimal) \<le> Asset.amount (alice_asset 15)"
    and rng1: "in_Decimal_range (Asset.amount (alice_asset 15) - 5)"
    and res: "Asset_ensure ((alice_asset 15)\<lparr>Asset.amount := Asset.amount (alice_asset 15) - 5\<rparr>)"
    and rng2: "in_Decimal_range
        (5 + balance ledger_enrolled (AssetHoldingAccount.asset_type alice_account, ''Bob''))"
    and new: "Asset_ensure ((alice_asset 15)\<lparr>Asset.amount :=
        5 + balance ledger_enrolled (AssetHoldingAccount.asset_type alice_account, ''Bob''),
        Asset.owner := ''Bob''\<rparr>)"
    unfolding ty b
    by (simp_all add: Asset_ensure_def alice_asset_def alice_tkn_def in_Decimal_range_def
        Decimal_max_def)
  have ne: "''Bob'' \<noteq> AssetHoldingAccount.owner alice_account"
    by (simp add: o)
  have rec: "asset_at ledger_enrolled (AssetHoldingAccount.asset_type alice_account, ''Bob'') = None \<or>
      fungible (AssetHoldingAccount.asset_type alice_account)"
    by (simp add: ty n)
  have r1: "exercise_Create_Transfer ''Alice'' 0 5 ''Bob'' ledger_enrolled = Inr (6, ledger_in_transfer)"
    by (simp add: ledger_enrolled_def ledger_in_transfer_def model_defs fixture_defs)
  have r2: "exercise_Accept_Transfer ''Bob'' 6 ledger_in_transfer = Inr (7, ?L2)"
    by (simp add: ledger_in_transfer_def model_defs fixture_defs2)
  from C2_transfer_then_accept [OF wf_fixtures(1) acc a le rng1 res ne rec rng2 new]
  obtain tc L1 rc L2
    where s1: "exercise_Create_Transfer ''Alice'' 0 5 ''Bob'' ledger_enrolled = Inr (tc, L1)"
      and s2: "exercise_Accept_Transfer ''Bob'' tc L1 = Inr (rc, L2)"
      and fs: "asset_at L2 (alice_tkn, ''Alice'') =
        Some ((alice_asset 15)\<lparr>Asset.amount := Asset.amount (alice_asset 15) - 5\<rparr>)"
      and fr: "asset_at L2 (alice_tkn, ''Bob'') =
        Some ((alice_asset 15)\<lparr>Asset.amount := 5 + 0, Asset.owner := ''Bob''\<rparr>)"
    unfolding k o ty b by blast
  from s1 r1 have "tc = 6" "L1 = ledger_in_transfer" by simp_all
  with s2 r2 have "L2 = ?L2" by simp
  with fs fr r1 r2 show ?thesis
    by (simp add: alice_asset_def bob_asset_def)
qed

theorem C2_transfer_then_accept_counterexample:
  "bindU (exercise_Create_Transfer ''Dianne'' 2 1 ''Alice'') (exercise_Accept_Transfer ''Alice'')
     ledger_nft = Inl (AssertionFailed msg_accept_nonfungible) \<and>
   asset_at ledger_nft (chris_nft, ''Dianne'') = Some (nft_asset ''Dianne'' 1) \<and>
   bindU (exercise_Create_Transfer ''Alice'' 0 0 ''Bob'') (exercise_Accept_Transfer ''Bob'')
     ledger_enrolled = Inl PreconditionFailed \<and>
   asset_at ledger_enrolled (alice_tkn, ''Alice'') = Some (alice_asset 15) \<and>
   bindU (exercise_Create_Transfer ''Alice'' 0 5 ''Alice'') (exercise_Accept_Transfer ''Alice'')
     ledger_enrolled =
     Inr (7, ledger_enrolled\<lparr>next_cid := 8, assets := [(7, alice_asset 15)]\<rparr>)"
  by (simp add: asset_at_def ledger_enrolled_def ledger_nft_def model_defs fixture_defs)

text \<open>
  C3: the claim is that Create_Transfer of the whole amount of a fungible Asset succeeds
  and creates no residual Asset. The choice creates the residual Asset in every case, here
  with the amount 0, which the ensure clause of a fungible Asset refuses: exercised by the
  owner on a well-formed ledger, the choice fails and no transfer is created.
\<close>

theorem C3_full_transfer_fails:
  assumes "wf_ledger L" and "map_of (accounts L) cid = Some acc"
    and "asset_at L (AssetHoldingAccount_key acc) = Some a"
    and "fungible (AssetHoldingAccount.asset_type acc)"
  shows "exercise_Create_Transfer (AssetHoldingAccount.owner acc) cid (Asset.amount a) r L =
           Inl PreconditionFailed"
proof -
  from assms(3) obtain c
    where f: "find (\<lambda>e. Asset_key (snd e) = AssetHoldingAccount_key acc) (assets L) = Some (c, a)"
    by (auto simp: asset_at_find)
  from found_asset(3)[OF assms(1) f] assms(4) have "fungible (Asset.asset_type a)"
    by (simp add: Asset_key_eq AssetHoldingAccount_key_def)
  then show ?thesis
    by (simp add: Create_Transfer_effect[OF assms(1,2) f] Asset_ensure_def)
qed

theorem C3_full_transfer_fails_witness:
  "asset_at ledger_enrolled (alice_tkn, ''Alice'') = Some (alice_asset 15) \<and>
   exercise_Create_Transfer ''Alice'' 0 15 ''Bob'' ledger_enrolled = Inl PreconditionFailed"
proof -
  have acc: "map_of (accounts ledger_enrolled) 0 = Some alice_account"
    by (simp add: ledger_enrolled_def)
  have a: "asset_at ledger_enrolled (AssetHoldingAccount_key alice_account) = Some (alice_asset 15)"
    by (simp add: asset_at_def ledger_enrolled_def AssetHoldingAccount_key_def Asset_key_def
        alice_account_def alice_asset_def)
  have f: "fungible (AssetHoldingAccount.asset_type alice_account)"
    by (simp add: alice_account_def alice_tkn_def)
  from C3_full_transfer_fails [OF wf_fixtures(1) acc a f, of "''Bob''"] a
  show ?thesis
    by (simp add: alice_account_def alice_asset_def AssetHoldingAccount_key_def)
qed

text \<open>
  C4, as amended: on a well-formed ledger, any number of successive Reject_Transfer
  choices, each exercised by the recipient of the transfer as it then stands, archives the
  transfer it started from and leaves a new AssetTransfer with the same asset snapshot and
  the same amount whose recipient is the owner of the asset snapshot. This holds after the
  first rejection and after every further one. No Asset is touched.
\<close>

theorem C4_reject_returns_to_owner:
  assumes "wf_ledger L" and "map_of (transfers L) cid = Some t"
  shows "\<exists>cid' L'. reject_times (Suc n) cid L = Inr (cid', L') \<and>
           map_of (transfers L') cid' =
             Some \<lparr>asset = asset t, AssetTransfer.recipient = Asset.owner (asset t),
                   AssetTransfer.amount = AssetTransfer.amount t\<rparr> \<and>
           map_of (transfers L') cid = None \<and>
           assets L' = assets L"
proof -
  from assms(1) have wf: "wf_cids (next_cid L) (transfers L)" by (simp add: wf_ledger_def)
  from assms(2) wf have lt: "cid < next_cid L"
    by (auto simp: wf_cids_def list_all_iff dest!: map_of_SomeD)
  have eq: "t\<lparr>AssetTransfer.recipient := Asset.owner (asset t)\<rparr> =
    \<lparr>asset = asset t, AssetTransfer.recipient = Asset.owner (asset t),
     AssetTransfer.amount = AssetTransfer.amount t\<rparr>"
    by simp
  from reject_times_returns_to_owner[OF wf assms(2), of n] lt show ?thesis
    unfolding eq by auto
qed

theorem C4_reject_returns_to_owner_witness:
  "reject_times (Suc (Suc (Suc 0))) 6 ledger_in_transfer =
     Inr (9, ledger_in_transfer
       \<lparr>next_cid := 10,
        transfers := [(9, \<lparr>asset = alice_asset 15, AssetTransfer.recipient = ''Alice'',
                          AssetTransfer.amount = 5\<rparr>)]\<rparr>)"
proof -
  let ?t = "\<lparr>asset = alice_asset 15, AssetTransfer.recipient = ''Bob'', AssetTransfer.amount = 5\<rparr>"
  have t: "map_of (transfers ledger_in_transfer) 6 = Some ?t"
    by (simp add: ledger_in_transfer_def)
  have run: "reject_times (Suc (Suc (Suc 0))) 6 ledger_in_transfer =
     Inr (9, ledger_in_transfer
       \<lparr>next_cid := 10,
        transfers := [(9, \<lparr>asset = alice_asset 15, AssetTransfer.recipient = ''Alice'',
                          AssetTransfer.amount = 5\<rparr>)]\<rparr>)"
    by (simp add: ledger_in_transfer_def model_defs fixture_defs)
  from C4_reject_returns_to_owner [OF wf_fixtures(2) t, of "Suc (Suc 0)"] run
  show ?thesis by simp
qed

theorem C4_reject_alternates_counterexample:
  "reject_times (Suc 0) 6 ledger_in_transfer =
     Inr (7, ledger_in_transfer
       \<lparr>next_cid := 8,
        transfers := [(7, \<lparr>asset = alice_asset 15, AssetTransfer.recipient = ''Alice'',
                          AssetTransfer.amount = 5\<rparr>)]\<rparr>) \<and>
   reject_times (Suc (Suc 0)) 6 ledger_in_transfer =
     Inr (8, ledger_in_transfer
       \<lparr>next_cid := 9,
        transfers := [(8, \<lparr>asset = alice_asset 15, AssetTransfer.recipient = ''Alice'',
                          AssetTransfer.amount = 5\<rparr>)]\<rparr>) \<and>
   map_of (transfers ledger_in_transfer) 6 =
     Some \<lparr>asset = alice_asset 15, AssetTransfer.recipient = ''Bob'', AssetTransfer.amount = 5\<rparr> \<and>
   ''Alice'' \<noteq> ''Bob''"
  by (simp add: ledger_in_transfer_def model_defs fixture_defs)

text \<open>
  C5: Reject_Transfer, exercised by the recipient on an active AssetTransfer, creates no
  Asset record, so none owned by the rejecting party: it archives the rejected transfer and
  creates one new AssetTransfer, and leaves the Assets, the accounts and the proposals of
  the ledger as they were.
\<close>

theorem C5_reject_creates_no_asset:
  assumes "map_of (transfers L) cid = Some t"
  shows "\<exists>L'. exercise_Reject_Transfer (AssetTransfer.recipient t) cid L = Inr (next_cid L, L') \<and>
           L' = L\<lparr>next_cid := Suc (next_cid L),
                  transfers := remove_cid cid (transfers L) @
                    [(next_cid L, t\<lparr>AssetTransfer.recipient := Asset.owner (asset t)\<rparr>)]\<rparr> \<and>
           assets L' = assets L \<and> accounts L' = accounts L \<and> proposals L' = proposals L"
  using assms
  by (simp add: exercise_Reject_Transfer_def exercise_transfer_def Reject_Transfer_def
      createAssetTransfer_def AssetTransfer_signatory_def)

theorem C5_reject_creates_no_asset_witness:
  "exercise_Reject_Transfer ''Bob'' 6 ledger_in_transfer =
     Inr (7, ledger_in_transfer
       \<lparr>next_cid := 8,
        transfers := [(7, \<lparr>asset = alice_asset 15, AssetTransfer.recipient = ''Alice'',
                          AssetTransfer.amount = 5\<rparr>)]\<rparr>) \<and>
   assets ledger_in_transfer = [(5, alice_asset 10)]"
proof -
  let ?t = "\<lparr>asset = alice_asset 15, AssetTransfer.recipient = ''Bob'', AssetTransfer.amount = 5\<rparr>"
  have t: "map_of (transfers ledger_in_transfer) 6 = Some ?t"
    by (simp add: ledger_in_transfer_def)
  from C5_reject_creates_no_asset [OF t]
  show ?thesis
    by (simp add: ledger_in_transfer_def remove_cid_def alice_asset_def)
qed

text \<open>
  C6: on a well-formed ledger, Accept_Transfer exercised by the recipient of an active
  transfer fails with the message that the recipient already owns this type of
  non-fungible asset exactly when an active Asset exists at the key of the asset type and
  the recipient and the asset type is not fungible. When the Asset at that key is of a
  fungible type, the choice archives it and the transfer and creates one Asset of the
  recipient whose amount is the transferred amount plus the previous one; it succeeds
  exactly when that sum is within the range of Decimal and above 0.
\<close>

theorem C6_accept_transfer:
  assumes wf: "wf_ledger L" and t: "map_of (transfers L) cid = Some t"
  shows "(exercise_Accept_Transfer (AssetTransfer.recipient t) cid L =
            Inl (AssertionFailed msg_accept_nonfungible) \<longleftrightarrow>
          asset_at L (Asset.asset_type (asset t), AssetTransfer.recipient t) \<noteq> None \<and>
          \<not> fungible (Asset.asset_type (asset t))) \<and>
         (\<forall>c old.
            find (\<lambda>e. Asset_key (snd e) = (Asset.asset_type (asset t), AssetTransfer.recipient t))
              (assets L) = Some (c, old) \<and>
            fungible (Asset.asset_type (asset t)) \<longrightarrow>
            exercise_Accept_Transfer (AssetTransfer.recipient t) cid L =
              (if \<not> in_Decimal_range (AssetTransfer.amount t + Asset.amount old)
               then Inl ArithmeticError
               else if 0 < AssetTransfer.amount t + Asset.amount old
               then Inr (next_cid L,
                 L\<lparr>next_cid := Suc (next_cid L),
                   transfers := remove_cid cid (transfers L),
                   assets := remove_cid c (assets L) @
                     [(next_cid L,
                       (asset t)\<lparr>Asset.amount := AssetTransfer.amount t + Asset.amount old,
                                 Asset.owner := AssetTransfer.recipient t\<rparr>)]\<rparr>)
               else Inl PreconditionFailed))"
proof (intro conjI allI impI)
  let ?k = "(Asset.asset_type (asset t), AssetTransfer.recipient t)"
  show "exercise_Accept_Transfer (AssetTransfer.recipient t) cid L =
            Inl (AssertionFailed msg_accept_nonfungible) \<longleftrightarrow>
          asset_at L ?k \<noteq> None \<and> \<not> fungible (Asset.asset_type (asset t))"
  proof (cases "find (\<lambda>e. Asset_key (snd e) = ?k) (assets L)")
    case None
    then show ?thesis
      by (simp add: Accept_Transfer_effect_none[OF t None] asset_at_def)
  next
    case (Some e)
    then obtain c old where e: "find (\<lambda>e. Asset_key (snd e) = ?k) (assets L) = Some (c, old)"
      by (cases e) simp
    then show ?thesis
      by (simp add: Accept_Transfer_effect_some[OF wf t e] asset_at_def)
  qed
next
  fix c old
  assume "find (\<lambda>e. Asset_key (snd e) = (Asset.asset_type (asset t), AssetTransfer.recipient t))
              (assets L) = Some (c, old) \<and> fungible (Asset.asset_type (asset t))"
  then show "exercise_Accept_Transfer (AssetTransfer.recipient t) cid L =
              (if \<not> in_Decimal_range (AssetTransfer.amount t + Asset.amount old)
               then Inl ArithmeticError
               else if 0 < AssetTransfer.amount t + Asset.amount old
               then Inr (next_cid L,
                 L\<lparr>next_cid := Suc (next_cid L),
                   transfers := remove_cid cid (transfers L),
                   assets := remove_cid c (assets L) @
                     [(next_cid L,
                       (asset t)\<lparr>Asset.amount := AssetTransfer.amount t + Asset.amount old,
                                 Asset.owner := AssetTransfer.recipient t\<rparr>)]\<rparr>)
               else Inl PreconditionFailed)"
    by (simp add: Accept_Transfer_effect_some[OF wf t] Asset_ensure_def)
qed

theorem C6_accept_transfer_witness:
  "exercise_Accept_Transfer ''Alice'' 8 ledger_nft_in_transfer =
     Inl (AssertionFailed msg_accept_nonfungible) \<and>
   asset_at ledger_nft_in_transfer (chris_nft, ''Alice'') = Some (nft_asset ''Alice'' 1) \<and>
   exercise_Accept_Transfer ''Bob'' 9 ledger_second_transfer =
     Inr (10, ledger_second_transfer
       \<lparr>next_cid := 11, transfers := [], assets := [(8, alice_asset 7), (10, bob_asset 8)]\<rparr>)"
proof -
  let ?t1 = "\<lparr>asset = nft_asset ''Dianne'' 1, AssetTransfer.recipient = ''Alice'',
              AssetTransfer.amount = 1\<rparr>"
  let ?t2 = "\<lparr>asset = alice_asset 10, AssetTransfer.recipient = ''Bob'',
              AssetTransfer.amount = 3\<rparr>"
  have t1: "map_of (transfers ledger_nft_in_transfer) 8 = Some ?t1"
    by (simp add: ledger_nft_in_transfer_def)
  have t2: "map_of (transfers ledger_second_transfer) 9 = Some ?t2"
    by (simp add: ledger_second_transfer_def)
  have a1: "asset_at ledger_nft_in_transfer (chris_nft, ''Alice'') = Some (nft_asset ''Alice'' 1)"
    by (simp add: asset_at_def ledger_nft_in_transfer_def Asset_key_def nft_asset_def)
  have a2: "find (\<lambda>e. Asset_key (snd e) = (alice_tkn, ''Bob'')) (assets ledger_second_transfer) =
      Some (7, bob_asset 5)"
    by (simp add: ledger_second_transfer_def Asset_key_def bob_asset_def)
  from C6_accept_transfer [OF wf_fixtures2(3) t1] C6_accept_transfer [OF wf_fixtures2(2) t2] a1 a2
  show ?thesis
    by (simp add: nft_asset_def chris_nft_def alice_asset_def alice_tkn_def bob_asset_def
        ledger_second_transfer_def remove_cid_def in_Decimal_range_def Decimal_max_def)
qed

text \<open>
  C7: Airdrop, exercised by the issuer on an active account, fails with the message that
  the account does not accept airdrops exactly when the account is not airdroppable and
  the issuer is not its owner; the failed command leaves the ledger as it was.
\<close>

theorem C7_airdrop_not_accepted:
  assumes "map_of (accounts L) cid = Some acc"
  shows "(exercise_Airdrop (issuer (AssetHoldingAccount.asset_type acc)) cid x L =
            Inl (AssertionFailed msg_airdrop_not_accepted) \<longleftrightarrow>
          \<not> airdroppable acc \<and>
          issuer (AssetHoldingAccount.asset_type acc) \<noteq> AssetHoldingAccount.owner acc) \<and>
         (\<not> airdroppable acc \<and>
          issuer (AssetHoldingAccount.asset_type acc) \<noteq> AssetHoldingAccount.owner acc \<longrightarrow>
          committed (issuer (AssetHoldingAccount.asset_type acc)) (Exercise_Airdrop cid x) L = L)"
proof (intro conjI impI)
  show "exercise_Airdrop (issuer (AssetHoldingAccount.asset_type acc)) cid x L =
            Inl (AssertionFailed msg_airdrop_not_accepted) \<longleftrightarrow>
          \<not> airdroppable acc \<and>
          issuer (AssetHoldingAccount.asset_type acc) \<noteq> AssetHoldingAccount.owner acc"
    using assms
    by (simp add: exercise_Airdrop_def exercise_account_def Airdrop_not_accepted_iff)
next
  assume "\<not> airdroppable acc \<and>
    issuer (AssetHoldingAccount.asset_type acc) \<noteq> AssetHoldingAccount.owner acc"
  then have "Airdrop acc x
      (AssetHoldingAccount_signatory acc @ [issuer (AssetHoldingAccount.asset_type acc)]) L =
      Inl (AssertionFailed msg_airdrop_not_accepted)"
    by (simp add: Airdrop_not_accepted_iff)
  with assms
  show "committed (issuer (AssetHoldingAccount.asset_type acc)) (Exercise_Airdrop cid x) L = L"
    by (simp add: exercise_Airdrop_def exercise_account_def committed_def ledger_of_def)
qed

theorem C7_airdrop_not_accepted_witness:
  "exercise_Airdrop ''Alice'' 4 5 ledger_enrolled = Inl (AssertionFailed msg_airdrop_not_accepted) \<and>
   committed ''Alice'' (Exercise_Airdrop 4 5) ledger_enrolled = ledger_enrolled \<and>
   exercise_Airdrop ''Alice'' 0 5 ledger_enrolled \<noteq> Inl (AssertionFailed msg_airdrop_not_accepted)"
proof -
  have bob: "map_of (accounts ledger_enrolled) 4 = Some bob_account"
    and alice: "map_of (accounts ledger_enrolled) 0 = Some alice_account"
    by (simp_all add: ledger_enrolled_def)
  from C7_airdrop_not_accepted [OF bob, of 5] C7_airdrop_not_accepted [OF alice, of 5]
  show ?thesis
    by (simp add: bob_account_def alice_account_def alice_tkn_def)
qed

text \<open>
  C8: for a fungible asset type on a well-formed ledger, a successful Airdrop of an amount
  leaves exactly one Asset at the key of the account, newly created, whose amount is the
  airdropped amount plus the balance held before (0 when there was no Asset), and the
  Asset that was at the key before is archived.
\<close>

theorem C8_airdrop_merges:
  assumes wf: "wf_ledger L" and acc: "map_of (accounts L) cid = Some acc"
    and fu: "fungible (AssetHoldingAccount.asset_type acc)"
    and run: "exercise_Airdrop p cid x L = Inr (c', L')"
  shows "filter (\<lambda>e. Asset_key (snd e) = AssetHoldingAccount_key acc) (assets L') =
           [(c', \<lparr>Asset.asset_type = AssetHoldingAccount.asset_type acc,
                  Asset.owner = AssetHoldingAccount.owner acc,
                  Asset.amount = x + balance L (AssetHoldingAccount_key acc)\<rparr>)] \<and>
         (\<forall>c. find_key Asset_key (AssetHoldingAccount_key acc) (assets L) = Some c \<longrightarrow>
            map_of (assets L') c = None)"
proof -
  let ?k = "AssetHoldingAccount_key acc"
  have p: "p = issuer (AssetHoldingAccount.asset_type acc)"
  proof (rule ccontr)
    assume "p \<noteq> issuer (AssetHoldingAccount.asset_type acc)"
    with acc run show False
      by (simp add: exercise_Airdrop_def exercise_account_def)
  qed
  show ?thesis
  proof (cases "find (\<lambda>e. Asset_key (snd e) = ?k) (assets L)")
    case None
    have k: "Asset_key \<lparr>Asset.asset_type = AssetHoldingAccount.asset_type acc,
        Asset.owner = AssetHoldingAccount.owner acc, Asset.amount = x\<rparr> = ?k"
      by (simp add: Asset_key_def AssetHoldingAccount_key_def)
    from run[unfolded p Airdrop_effect_none[OF acc None]]
    have c': "c' = next_cid L"
      and L': "assets L' = assets L @
        [(next_cid L, \<lparr>Asset.asset_type = AssetHoldingAccount.asset_type acc,
             Asset.owner = AssetHoldingAccount.owner acc, Asset.amount = x\<rparr>)]"
      by (auto split: if_splits)
    from None have b: "balance L ?k = 0" by (simp add: balance_def asset_at_def)
    from None have n: "find_key Asset_key ?k (assets L) = None" by (simp add: find_key_def)
    show ?thesis
      by (simp add: L' c' b n k find_None_filter[OF None])
  next
    case (Some e)
    then obtain c old where e: "find (\<lambda>e. Asset_key (snd e) = ?k) (assets L) = Some (c, old)"
      by (cases e) simp
    note f = found_asset[OF wf e]
    have k: "Asset_key \<lparr>Asset.asset_type = AssetHoldingAccount.asset_type acc,
        Asset.owner = AssetHoldingAccount.owner acc, Asset.amount = x + Asset.amount old\<rparr> = ?k"
      by (simp add: Asset_key_def AssetHoldingAccount_key_def)
    from run[unfolded p Airdrop_effect_some[OF wf acc e]]
    have c': "c' = next_cid L"
      and L': "assets L' = remove_cid c (assets L) @
        [(next_cid L, \<lparr>Asset.asset_type = AssetHoldingAccount.asset_type acc,
             Asset.owner = AssetHoldingAccount.owner acc,
             Asset.amount = x + Asset.amount old\<rparr>)]"
      by (auto split: if_splits)
    from e have b: "balance L ?k = Asset.amount old" by (simp add: balance_def asset_at_def)
    show ?thesis
      using f(5)
      by (simp add: L' c' b k f(1) find_None_filter[OF f(7)] map_of_snoc_old)
  qed
qed

theorem C8_airdrop_merges_witness:
  "exercise_Airdrop ''Alice'' 0 10 ledger_account_only =
     Inr (1, ledger_account_only\<lparr>next_cid := 2, assets := [(1, alice_asset 10)]\<rparr>) \<and>
   exercise_Airdrop ''Alice'' 0 5
     (ledger_account_only\<lparr>next_cid := 2, assets := [(1, alice_asset 10)]\<rparr>) =
     Inr (2, ledger_account_only\<lparr>next_cid := 3, assets := [(2, alice_asset 15)]\<rparr>) \<and>
   filter (\<lambda>e. Asset_key (snd e) = (alice_tkn, ''Alice''))
     (assets (ledger_account_only\<lparr>next_cid := 3, assets := [(2, alice_asset 15)]\<rparr>)) =
     [(2, alice_asset 15)] \<and>
   map_of (assets (ledger_account_only\<lparr>next_cid := 3, assets := [(2, alice_asset 15)]\<rparr>)) 1 = None"
proof -
  let ?L1 = "ledger_account_only\<lparr>next_cid := 2, assets := [(1, alice_asset 10)]\<rparr>"
  let ?L2 = "ledger_account_only\<lparr>next_cid := 3, assets := [(2, alice_asset 15)]\<rparr>"
  have r1: "exercise_Airdrop ''Alice'' 0 10 ledger_account_only = Inr (1, ?L1)"
    by (simp add: model_defs fixture_defs2)
  have r2: "exercise_Airdrop ''Alice'' 0 5 ?L1 = Inr (2, ?L2)"
    by (simp add: model_defs fixture_defs2)
  have wf: "wf_ledger ?L1"
    by (simp add: wf_ledger_def wf_cids_def Asset_key_def AssetHoldingAccount_key_def
        Asset_ensure_def fixture_defs2)
  have acc: "map_of (accounts ?L1) 0 = Some alice_account"
    by (simp add: ledger_account_only_def)
  have fu: "fungible (AssetHoldingAccount.asset_type alice_account)"
    by (simp add: alice_account_def alice_tkn_def)
  have b: "balance ?L1 (AssetHoldingAccount_key alice_account) = 10"
    and k: "find_key Asset_key (AssetHoldingAccount_key alice_account) (assets ?L1) = Some 1"
    by (simp_all add: balance_def asset_at_def find_key_def Asset_key_def AssetHoldingAccount_key_def
        fixture_defs2)
  from C8_airdrop_merges [OF wf acc fu r2] r1 r2 b k
  show ?thesis
    by (simp add: AssetHoldingAccount_key_def alice_account_def alice_asset_def)
qed

text \<open>
  C9: Invite_New_Asset_Holder, exercised on an active account by the owner when the account
  is resharable and by the issuer otherwise, succeeds and creates an
  AssetHoldingAccountProposal for the given recipient, with no condition on the accounts the
  recipient already holds.
\<close>

theorem C9_invite_always_succeeds:
  assumes "map_of (accounts L) cid = Some acc"
    and "p = (if resharable acc then AssetHoldingAccount.owner acc
              else issuer (AssetHoldingAccount.asset_type acc))"
  shows "exercise_Invite_New_Asset_Holder p cid r L =
           Inr (next_cid L,
             L\<lparr>next_cid := Suc (next_cid L),
               proposals := proposals L @
                 [(next_cid L, \<lparr>account = acc, AssetHoldingAccountProposal.recipient = r\<rparr>)]\<rparr>)"
  using assms
  by (simp add: exercise_Invite_New_Asset_Holder_def exercise_account_def
      Invite_New_Asset_Holder_controller_def Invite_New_Asset_Holder_def
      createAssetHoldingAccountProposal_def AssetHoldingAccountProposal_signatory_def
      AssetHoldingAccount_signatory_def authorized_def)

theorem C9_invite_always_succeeds_witness:
  "map_of (accounts ledger_enrolled) 4 = Some bob_account \<and>
   AssetHoldingAccount_key bob_account = (alice_tkn, ''Bob'') \<and>
   exercise_Invite_New_Asset_Holder ''Alice'' 0 ''Bob'' ledger_enrolled =
     Inr (5, ledger_enrolled
       \<lparr>next_cid := 6,
        proposals := [(5, \<lparr>account = alice_account,
                          AssetHoldingAccountProposal.recipient = ''Bob''\<rparr>)]\<rparr>)"
proof -
  have acc: "map_of (accounts ledger_enrolled) 0 = Some alice_account"
    by (simp add: ledger_enrolled_def)
  have p: "''Alice'' = (if resharable alice_account then AssetHoldingAccount.owner alice_account
      else issuer (AssetHoldingAccount.asset_type alice_account))"
    by (simp add: alice_account_def)
  from C9_invite_always_succeeds [OF acc p, of "''Bob''"]
  show ?thesis
    by (simp add: ledger_enrolled_def bob_account_def alice_account_def AssetHoldingAccount_key_def)
qed

text \<open>
  C10, as amended: Create_Transfer places no lower bound on the amount. On a well-formed
  ledger, for an active Asset of the account, of amount b, and an amount a below 0, the
  precondition a \<le> b holds, and the outcome is decided by the residual amount b - a.
  If b - a is within the range of Decimal and the asset type is fungible or b - a is 1,
  the choice succeeds: the residual Asset of the sender has the amount b - a, above b, and
  the AssetTransfer carries the negative amount. If b - a is outside the range of Decimal
  the choice fails with an arithmetic error. If b - a is within the range, the asset type
  is not fungible and b - a is not 1, the residual create violates the ensure clause and
  the choice fails.
\<close>

theorem C10_negative_transfer:
  assumes wf: "wf_ledger L" and acc: "map_of (accounts L) cid = Some acc"
    and a: "asset_at L (AssetHoldingAccount_key acc) = Some a"
    and neg: "x < 0"
  shows "x \<le> Asset.amount a \<and>
         (in_Decimal_range (Asset.amount a - x) \<and>
          (fungible (AssetHoldingAccount.asset_type acc) \<or> Asset.amount a - x = 1) \<longrightarrow>
          (\<exists>tc L'. exercise_Create_Transfer (AssetHoldingAccount.owner acc) cid x r L =
                     Inr (tc, L') \<and>
             asset_at L' (AssetHoldingAccount_key acc) =
               Some (a\<lparr>Asset.amount := Asset.amount a - x\<rparr>) \<and>
             Asset.amount a < Asset.amount a - x \<and>
             map_of (transfers L') tc =
               Some \<lparr>asset = a, AssetTransfer.recipient = r, AssetTransfer.amount = x\<rparr>)) \<and>
         (\<not> in_Decimal_range (Asset.amount a - x) \<longrightarrow>
          exercise_Create_Transfer (AssetHoldingAccount.owner acc) cid x r L =
            Inl ArithmeticError) \<and>
         (in_Decimal_range (Asset.amount a - x) \<and>
          \<not> fungible (AssetHoldingAccount.asset_type acc) \<and> Asset.amount a - x \<noteq> 1 \<longrightarrow>
          exercise_Create_Transfer (AssetHoldingAccount.owner acc) cid x r L =
            Inl PreconditionFailed)"
proof -
  let ?k = "AssetHoldingAccount_key acc"
  from a obtain c where f: "find (\<lambda>e. Asset_key (snd e) = ?k) (assets L) = Some (c, a)"
    by (auto simp: asset_at_find)
  note fa = found_asset[OF wf f]
  from fa(3) have ty: "Asset.asset_type a = AssetHoldingAccount.asset_type acc"
    by (simp add: Asset_key_eq AssetHoldingAccount_key_def)
  from fa(4) have nonneg: "0 \<le> Asset.amount a"
    by (auto simp: Asset_ensure_def split: if_splits)
  with neg have le: "x \<le> Asset.amount a" by simp
  from nonneg neg have en: "Asset_ensure (a\<lparr>Asset.amount := Asset.amount a - x\<rparr>) \<longleftrightarrow>
      fungible (AssetHoldingAccount.asset_type acc) \<or> Asset.amount a - x = 1"
    by (auto simp: Asset_ensure_def ty)
  from wf have "wf_cids (next_cid L) (transfers L)" by (simp add: wf_ledger_def)
  then have fresh: "map_of (transfers L) (Suc (next_cid L)) = None"
    by (rule wf_cids_fresh) simp
  have k: "Asset_key (a\<lparr>Asset.amount := Asset.amount a - x\<rparr>) = ?k"
    using fa(3) by (simp add: Asset_key_def)
  show ?thesis
    using le neg fresh
    by (simp add: Create_Transfer_effect[OF wf acc f] en asset_at_def find_append fa(7) k
        map_add_def)
qed

theorem C10_negative_transfer_witness:
  "exercise_Create_Transfer ''Alice'' 0 (- 5) ''Bob'' ledger_enrolled =
     Inr (6, ledger_enrolled
       \<lparr>next_cid := 7, assets := [(5, alice_asset 20)],
        transfers := [(6, \<lparr>asset = alice_asset 15, AssetTransfer.recipient = ''Bob'',
                          AssetTransfer.amount = - 5\<rparr>)]\<rparr>) \<and>
   exercise_Create_Transfer ''Alice'' 0 (- 9999999999999999999999999999) ''Bob'' ledger_enrolled =
     Inl ArithmeticError \<and>
   asset_at ledger_enrolled (alice_tkn, ''Alice'') = Some (alice_asset 15)"
proof -
  have acc: "map_of (accounts ledger_enrolled) 0 = Some alice_account"
    by (simp add: ledger_enrolled_def)
  have a: "asset_at ledger_enrolled (AssetHoldingAccount_key alice_account) = Some (alice_asset 15)"
    by (simp add: asset_at_def ledger_enrolled_def AssetHoldingAccount_key_def Asset_key_def
        alice_account_def alice_asset_def)
  have neg: "(- 5 :: Decimal) < 0" "(- 9999999999999999999999999999 :: Decimal) < 0"
    by simp_all
  have ok: "in_Decimal_range (Asset.amount (alice_asset 15) - (- 5)) \<and>
      (fungible (AssetHoldingAccount.asset_type alice_account) \<or>
       Asset.amount (alice_asset 15) - (- 5) = 1)"
    by (simp add: alice_account_def alice_tkn_def alice_asset_def in_Decimal_range_def
        Decimal_max_def)
  have over: "\<not> in_Decimal_range
      (Asset.amount (alice_asset 15) - (- 9999999999999999999999999999))"
    by (simp add: alice_asset_def in_Decimal_range_def Decimal_max_def)
  have run: "exercise_Create_Transfer ''Alice'' 0 (- 5) ''Bob'' ledger_enrolled =
     Inr (6, ledger_enrolled
       \<lparr>next_cid := 7, assets := [(5, alice_asset 20)],
        transfers := [(6, \<lparr>asset = alice_asset 15, AssetTransfer.recipient = ''Bob'',
                          AssetTransfer.amount = - 5\<rparr>)]\<rparr>)"
    by (simp add: ledger_enrolled_def model_defs fixture_defs)
  from C10_negative_transfer [OF wf_fixtures(1) acc a neg(1), of "''Bob''"]
    C10_negative_transfer [OF wf_fixtures(1) acc a neg(2), of "''Bob''"] ok over run a
  show ?thesis
    by (simp add: AssetHoldingAccount_key_def alice_account_def)
qed

theorem C10_negative_transfer_counterexample:
  "asset_at ledger_nft (chris_nft, ''Dianne'') = Some (nft_asset ''Dianne'' 1) \<and>
   (- 1 :: Decimal) \<le> Asset.amount (nft_asset ''Dianne'' 1) \<and>
   exercise_Create_Transfer ''Dianne'' 2 (- 1) ''Alice'' ledger_nft = Inl PreconditionFailed"
  by (simp add: asset_at_def ledger_nft_def model_defs fixture_defs)

end
